theory Spec2Isabelle
  imports Complex_Main "HOL-Library.Char_ord" "HOL-Library.List_Lexorder"
begin

section \<open>JavaScript values\<close>

text \<open>
  The service is an Express application (\<^verbatim>\<open>src/app.js\<close>; an earlier revision of the
  same file is \<^verbatim>\<open>src/unnamed/part_000\<close>). Its handlers read header values, query
  parameters and the fields of a JSON body, all dynamically typed, so the embedding
  starts with the values a parsed JSON document can hold, plus \<^verbatim>\<open>undefined\<close> for a
  field that is not there.

  A number is \<^verbatim>\<open>NaN\<close>, an infinity or a finite value. A finite value is carried as the
  rational it denotes; rounding to the nearest binary64 inside the finite range is not
  modelled, the overflow and underflow thresholds (which decide finiteness and
  positivity) are. A string is a HOL string, each character a code point below U+0100
  (the range of an HTTP header value as Node reads it); text with a higher code point is
  outside the model. Case mapping and white space are those of ECMAScript on that range.
\<close>

datatype jsnum = NaN | PosInf | NegInf | Fin rat

datatype jsval =
    JUndefined
  | JNull
  | JBool bool
  | JNum jsnum
  | JStr string
  | JArr "jsval list"
  | JObj "(string \<times> jsval) list"

text \<open>Truthiness, as \<^verbatim>\<open>!x\<close>, \<^verbatim>\<open>x || y\<close> and \<^verbatim>\<open>x ? a : b\<close> test it.\<close>

fun truthy :: "jsval \<Rightarrow> bool" where
  "truthy JUndefined = False"
| "truthy JNull = False"
| "truthy (JBool b) = b"
| "truthy (JNum n) = (n \<noteq> NaN \<and> n \<noteq> Fin 0)"
| "truthy (JStr s) = (s \<noteq> [])"
| "truthy (JArr xs) = True"
| "truthy (JObj kvs) = True"

subsection \<open>String methods\<close>

text \<open>
  \<^verbatim>\<open>toLowerCase\<close>: the letters with a lower-case form are \<^verbatim>\<open>A\<close> to \<^verbatim>\<open>Z\<close> and the Latin-1
  capitals U+00C0 to U+00DE without the multiplication sign U+00D7; each maps to the
  code point 32 above it.
\<close>

definition upperCaseChars :: string where
  "upperCaseChars =
     ''ABCDEFGHIJKLMNOPQRSTUVWXYZ'' @
       [
        CHR 0xC0, CHR 0xC1, CHR 0xC2, CHR 0xC3, CHR 0xC4, CHR 0xC5, CHR 0xC6, CHR 0xC7,
        CHR 0xC8, CHR 0xC9, CHR 0xCA, CHR 0xCB, CHR 0xCC, CHR 0xCD, CHR 0xCE, CHR 0xCF,
        CHR 0xD0, CHR 0xD1, CHR 0xD2, CHR 0xD3, CHR 0xD4, CHR 0xD5, CHR 0xD6, CHR 0xD8,
        CHR 0xD9, CHR 0xDA, CHR 0xDB, CHR 0xDC, CHR 0xDD, CHR 0xDE]"

definition lowerCaseChars :: string where
  "lowerCaseChars =
     ''abcdefghijklmnopqrstuvwxyz'' @
       [
        CHR 0xE0, CHR 0xE1, CHR 0xE2, CHR 0xE3, CHR 0xE4, CHR 0xE5, CHR 0xE6, CHR 0xE7,
        CHR 0xE8, CHR 0xE9, CHR 0xEA, CHR 0xEB, CHR 0xEC, CHR 0xED, CHR 0xEE, CHR 0xEF,
        CHR 0xF0, CHR 0xF1, CHR 0xF2, CHR 0xF3, CHR 0xF4, CHR 0xF5, CHR 0xF6, CHR 0xF8,
        CHR 0xF9, CHR 0xFA, CHR 0xFB, CHR 0xFC, CHR 0xFD, CHR 0xFE]"

definition toLowerChar :: "char \<Rightarrow> char" where
  "toLowerChar c =
     (case map_of (zip upperCaseChars lowerCaseChars) c of
        Some d \<Rightarrow> d
      | None \<Rightarrow> c)"

definition toLowerCase :: "string \<Rightarrow> string" where
  "toLowerCase s = map toLowerChar s"

text \<open>
  White space and line terminators of ECMAScript below U+0100: TAB, LF, VT, FF, CR, SP
  and the no-break space U+00A0.
\<close>

definition isWhiteSpace :: "char \<Rightarrow> bool" where
  "isWhiteSpace c = (of_char c \<in> {9, 10, 11, 12, 13, 32, 160 :: nat})"

definition trim :: "string \<Rightarrow> string" where
  "trim s = rev (dropWhile isWhiteSpace (rev (dropWhile isWhiteSpace s)))"

fun startsWith :: "string \<Rightarrow> string \<Rightarrow> bool" where
  "startsWith s [] = True"
| "startsWith [] (p # ps) = False"
| "startsWith (c # cs) (p # ps) = (c = p \<and> startsWith cs ps)"

text \<open>\<^verbatim>\<open>s.includes(n)\<close>: \<open>n\<close> occurs in \<open>s\<close> as a contiguous run.\<close>

fun includesStr :: "string \<Rightarrow> string \<Rightarrow> bool" where
  "includesStr [] n = (n = [])"
| "includesStr (c # cs) n = (startsWith (c # cs) n \<or> includesStr cs n)"

text \<open>\<^verbatim>\<open>s.split(",")\<close>: never empty, \<^verbatim>\<open>"".split(",")\<close> is \<^verbatim>\<open>[""]\<close>.\<close>

fun splitComma :: "string \<Rightarrow> string list" where
  "splitComma [] = [[]]"
| "splitComma (c # cs) =
     (if c = CHR '','' then [] # splitComma cs
      else (case splitComma cs of p # ps \<Rightarrow> (c # p) # ps | [] \<Rightarrow> [[c]]))"

fun joinComma :: "string list \<Rightarrow> string" where
  "joinComma [] = []"
| "joinComma [x] = x"
| "joinComma (x # y # zs) = x @ '','' @ joinComma (y # zs)"

text \<open>\<^verbatim>\<open>x || d\<close> for a string that may be undefined: the empty string is falsy too.\<close>

definition strOr :: "string option \<Rightarrow> string \<Rightarrow> string" where
  "strOr x d = (case x of None \<Rightarrow> d | Some s \<Rightarrow> if s = [] then d else s)"

subsection \<open>Conversion to a number\<close>

text \<open>
  \<^verbatim>\<open>Number(v)\<close> on a string follows the StringNumericLiteral grammar: surrounding
  white space is dropped, the empty string is 0, then a hexadecimal, octal or binary
  integer with its prefix, or an optionally signed \<^verbatim>\<open>Infinity\<close> or decimal literal with an
  optional exponent. Anything else is \<^verbatim>\<open>NaN\<close>.
\<close>

definition digitOf :: "char \<Rightarrow> nat option" where
  "digitOf c = map_of (zip ''0123456789abcdef'' [0, 1, 2, 3, 4, 5, 6, 7, 8, 9, 10, 11, 12, 13, 14, 15])
       (toLowerChar c)"

definition isRadixDigit :: "nat \<Rightarrow> char \<Rightarrow> bool" where
  "isRadixDigit b c = (case digitOf c of Some d \<Rightarrow> d < b | None \<Rightarrow> False)"

definition isDigit :: "char \<Rightarrow> bool" where
  "isDigit c = isRadixDigit 10 c"

definition digitsVal :: "nat \<Rightarrow> string \<Rightarrow> nat" where
  "digitsVal b ds = foldl (\<lambda>a c. b * a + (case digitOf c of Some d \<Rightarrow> d | None \<Rightarrow> 0)) 0 ds"

text \<open>
  Round-to-nearest at the two ends of the binary64 range: a magnitude of at least
  \<open>2^1024 - 2^970\<close> becomes an infinity, one of at most \<open>2^-1075\<close> becomes zero.
\<close>

definition toDouble :: "rat \<Rightarrow> jsnum" where
  "toDouble q =
     (if 2 ^ 1024 - 2 ^ 970 \<le> \<bar>q\<bar> then (if 0 < q then PosInf else NegInf)
      else if \<bar>q\<bar> \<le> 1 / 2 ^ 1075 then Fin 0
      else Fin q)"

definition radixLiteral :: "nat \<Rightarrow> string \<Rightarrow> jsnum" where
  "radixLiteral b ds =
     (if ds \<noteq> [] \<and> list_all (isRadixDigit b) ds then toDouble (of_nat (digitsVal b ds))
      else NaN)"

definition pow10 :: "int \<Rightarrow> rat" where
  "pow10 k = (if 0 \<le> k then 10 ^ nat k else 1 / 10 ^ nat (- k))"

text \<open>What follows the mantissa: nothing, or \<^verbatim>\<open>e\<close>/\<^verbatim>\<open>E\<close>, an optional sign and digits.\<close>

definition exponentPart :: "string \<Rightarrow> int option" where
  "exponentPart r =
     (case r of
        [] \<Rightarrow> Some 0
      | c # r' \<Rightarrow>
          if c = CHR ''e'' \<or> c = CHR ''E'' then
            (let neg = startsWith r' ''-'';
                 ds = (if startsWith r' ''-'' \<or> startsWith r' ''+'' then tl r' else r')
             in if ds \<noteq> [] \<and> list_all isDigit ds
                then Some (if neg then - int (digitsVal 10 ds) else int (digitsVal 10 ds))
                else None)
          else None)"

definition unsignedDecimal :: "string \<Rightarrow> rat option" where
  "unsignedDecimal u =
     (let ip = takeWhile isDigit u;
          r1 = dropWhile isDigit u;
          dot = startsWith r1 ''.'';
          fp = (if dot then takeWhile isDigit (tl r1) else []);
          r2 = (if dot then dropWhile isDigit (tl r1) else r1)
      in if ip = [] \<and> fp = [] then None
         else (case exponentPart r2 of
                 None \<Rightarrow> None
               | Some e \<Rightarrow> Some (of_nat (digitsVal 10 (ip @ fp)) * pow10 (e - int (length fp)))))"

definition StringToNumber :: "string \<Rightarrow> jsnum" where
  "StringToNumber s =
     (let t = trim s in
      if t = [] then Fin 0
      else if toLowerCase (take 2 t) = ''0x'' then radixLiteral 16 (drop 2 t)
      else if toLowerCase (take 2 t) = ''0o'' then radixLiteral 8 (drop 2 t)
      else if toLowerCase (take 2 t) = ''0b'' then radixLiteral 2 (drop 2 t)
      else
        (let neg = startsWith t ''-'';
             u = (if startsWith t ''-'' \<or> startsWith t ''+'' then tl t else t)
         in if u = ''Infinity'' then (if neg then NegInf else PosInf)
            else (case unsignedDecimal u of
                    None \<Rightarrow> NaN
                  | Some q \<Rightarrow> toDouble (if neg then - q else q))))"

text \<open>
  \<^verbatim>\<open>String(v)\<close> and \<^verbatim>\<open>Number(v)\<close> can raise: an object is converted through its
  \<^verbatim>\<open>toString\<close> and \<^verbatim>\<open>valueOf\<close> methods, and an object parsed from JSON that has a member
  named \<^verbatim>\<open>toString\<close> of its own hides the inherited method behind a value that cannot be
  called, so the conversion ends in a \<^verbatim>\<open>TypeError\<close>. A conversion returns \<open>Inr\<close> of its
  result or \<open>Inl\<close> of the error's message.
\<close>

definition TypeError :: string where
  "TypeError = ''Cannot convert object to primitive value''"

text \<open>The results of a list of conversions, or the first error among them.\<close>

fun collect :: "(string + 'a) list \<Rightarrow> string + 'a list" where
  "collect [] = Inr []"
| "collect (Inl err # rs) = Inl err"
| "collect (Inr x # rs) = (case collect rs of Inl err \<Rightarrow> Inl err | Inr xs \<Rightarrow> Inr (x # xs))"

text \<open>
  \<^verbatim>\<open>String(v)\<close>. The digits JavaScript prints for a number (the shortest decimal that
  reads back as the same binary64) are not modelled: the conversion of a number to a
  string is the parameter \<open>ns\<close>, and everything below holds for every such function.
  An array joins the strings of its elements with commas, \<^verbatim>\<open>null\<close> and \<^verbatim>\<open>undefined\<close>
  elements giving the empty string.
\<close>

fun String :: "(jsnum \<Rightarrow> string) \<Rightarrow> jsval \<Rightarrow> string + string" where
  "String ns JUndefined = Inr ''undefined''"
| "String ns JNull = Inr ''null''"
| "String ns (JBool b) = Inr (if b then ''true'' else ''false'')"
| "String ns (JNum n) = Inr (ns n)"
| "String ns (JStr s) = Inr s"
| "String ns (JArr xs) =
     (case collect (map (\<lambda>x. if x = JUndefined \<or> x = JNull then Inr [] else String ns x) xs) of
        Inl err \<Rightarrow> Inl err
      | Inr ss \<Rightarrow> Inr (joinComma ss))"
| "String ns (JObj kvs) =
     (if ''toString'' \<in> set (map fst kvs) then Inl TypeError else Inr ''[object Object]'')"

text \<open>\<^verbatim>\<open>Number(v)\<close>: an array or object is first turned into its string.\<close>

fun Number :: "(jsnum \<Rightarrow> string) \<Rightarrow> jsval \<Rightarrow> string + jsnum" where
  "Number ns JUndefined = Inr NaN"
| "Number ns JNull = Inr (Fin 0)"
| "Number ns (JBool b) = Inr (Fin (if b then 1 else 0))"
| "Number ns (JNum n) = Inr n"
| "Number ns (JStr s) = Inr (StringToNumber s)"
| "Number ns (JArr xs) =
     (case String ns (JArr xs) of Inl err \<Rightarrow> Inl err | Inr s \<Rightarrow> Inr (StringToNumber s))"
| "Number ns (JObj kvs) =
     (case String ns (JObj kvs) of Inl err \<Rightarrow> Inl err | Inr s \<Rightarrow> Inr (StringToNumber s))"

text \<open>\<^verbatim>\<open>Number.isFinite(n)\<close> and \<^verbatim>\<open>n <= 0\<close>; every comparison with \<^verbatim>\<open>NaN\<close> is false.\<close>

fun isFinite :: "jsnum \<Rightarrow> bool" where
  "isFinite (Fin q) = True"
| "isFinite n = False"

fun leZero :: "jsnum \<Rightarrow> bool" where
  "leZero (Fin q) = (q \<le> 0)"
| "leZero NegInf = True"
| "leZero n = False"

text \<open>
  Property access \<^verbatim>\<open>v.k\<close> and the document \<^verbatim>\<open>res.json(v)\<close> sends
  (\<^verbatim>\<open>JSON.stringify\<close>): a member whose value is \<^verbatim>\<open>undefined\<close> is left out, an
  \<^verbatim>\<open>undefined\<close> array element and a number that is not finite are written \<^verbatim>\<open>null\<close>.
  The association list of an object is its members; a lookup takes the first binding.
\<close>

definition member :: "jsval \<Rightarrow> string \<Rightarrow> jsval" where
  "member v k =
     (case v of
        JObj kvs \<Rightarrow> (case map_of kvs k of Some x \<Rightarrow> x | None \<Rightarrow> JUndefined)
      | _ \<Rightarrow> JUndefined)"

fun stringify :: "jsval \<Rightarrow> jsval" where
  "stringify (JNum n) = (if isFinite n then JNum n else JNull)"
| "stringify (JArr xs) = JArr (map (\<lambda>x. if x = JUndefined then JNull else stringify x) xs)"
| "stringify (JObj kvs) =
     JObj (map (\<lambda>kv. (fst kv, stringify (snd kv))) (filter (\<lambda>kv. snd kv \<noteq> JUndefined) kvs))"
| "stringify v = v"

section \<open>Requests, responses and configuration\<close>

text \<open>
  A request as the router sees it: the method, the path (without the query string), the
  headers keyed by their lower-case name, the \<^verbatim>\<open>type\<close> query parameter
  (\<^verbatim>\<open>req.query.type\<close>, \<^verbatim>\<open>undefined\<close> when absent) and the parsed JSON body.
\<close>

record request =
  req_method :: string
  req_path :: string
  req_headers :: "string \<Rightarrow> string option"
  req_query_type :: jsval
  req_body :: jsval

datatype payload = Json jsval | Text string | NoContent | DefaultPage

record response =
  res_status :: nat
  res_body :: payload

text \<open>What a middleware does: call \<^verbatim>\<open>next()\<close>, or end the request with a response.\<close>

datatype mw = Next | Respond response

text \<open>\<^verbatim>\<open>process.env\<close>: the two variables the logic reads.\<close>

record env =
  EDIT_TOKEN :: "string option"
  CORS_ORIGIN :: "string option"

definition req_get :: "request \<Rightarrow> string \<Rightarrow> string option" where
  "req_get req name = req_headers req (toLowerCase name)"

definition res_json :: "nat \<Rightarrow> jsval \<Rightarrow> response" where
  "res_json st v = \<lparr>res_status = st, res_body = Json (stringify v)\<rparr>"

definition res_error :: "nat \<Rightarrow> string \<Rightarrow> response" where
  "res_error st msg = res_json st (JObj [(''error'', JStr msg)])"

section \<open>CORS policy\<close>

definition WHITELIST :: "env \<Rightarrow> string list" where
  "WHITELIST e = filter (\<lambda>s. s \<noteq> []) (map trim (splitComma (strOr (CORS_ORIGIN e) [])))"

text \<open>
  \<^verbatim>\<open>corsOptions.origin(origin, cb)\<close>: the result is what the callback is given,
  \<open>Inr allow\<close> for \<^verbatim>\<open>cb(null, allow)\<close> and \<open>Inl msg\<close> for \<^verbatim>\<open>cb(new Error(msg))\<close>.
  \<^verbatim>\<open>app.js\<close> answers a refused origin with \<^verbatim>\<open>false\<close>, the earlier revision with an error.
\<close>

definition corsOptions_origin :: "env \<Rightarrow> string option \<Rightarrow> string + bool" where
  "corsOptions_origin e origin =
     (case origin of
        None \<Rightarrow> Inr True
      | Some orig \<Rightarrow>
          if orig = [] then Inr True
          else if length (WHITELIST e) = 0 \<or> orig \<in> set (WHITELIST e) then Inr True
          else Inr False)"

definition corsOptions_origin_part_000 :: "env \<Rightarrow> string option \<Rightarrow> string + bool" where
  "corsOptions_origin_part_000 e origin =
     (case origin of
        None \<Rightarrow> Inr True
      | Some orig \<Rightarrow>
          if orig = [] then Inr True
          else if length (WHITELIST e) = 0 \<or> orig \<in> set (WHITELIST e) then Inr True
          else Inl ''Not allowed by CORS'')"

section \<open>Auth gate\<close>

text \<open>
  The first three lines of \<^verbatim>\<open>requireEditAuth\<close> compute the candidate token
  (\<open>None\<close> is \<^verbatim>\<open>null\<close>): \<^verbatim>\<open>req.get("x-api-key") || bearer\<close>.
\<close>

definition editToken :: "request \<Rightarrow> string option" where
  "editToken req =
     (let header = strOr (req_get req ''authorization'') [];
          bearer = (if startsWith header ''Bearer '' then Some (drop 7 header) else None)
      in case req_get req ''x-api-key'' of
           None \<Rightarrow> bearer
         | Some k \<Rightarrow> if k = [] then bearer else Some k)"

definition requireEditAuth :: "env \<Rightarrow> request \<Rightarrow> mw" where
  "requireEditAuth e req =
     (let token = editToken req;
          expected = strOr (EDIT_TOKEN e) []
      in if (case token of None \<Rightarrow> False | Some t \<Rightarrow> t \<noteq> [] \<and> expected \<noteq> [] \<and> t = expected)
         then Next
         else Respond (res_error 401 ''unauthorized''))"

section \<open>Navigation blocker\<close>

text \<open>
  \<^verbatim>\<open>blockBrowserNav\<close> wraps its inspection in \<^verbatim>\<open>try\<close>/\<^verbatim>\<open>catch\<close>. The calls in the block
  are the three header reads, so the header accessor is a parameter that may raise
  (\<open>Inl\<close>); the \<^verbatim>\<open>catch\<close> logs and falls through to \<^verbatim>\<open>next()\<close>. The router passes the
  request's own accessor, which never raises.
\<close>

definition blockBrowserNav :: "(string \<Rightarrow> string + string option) \<Rightarrow> request \<Rightarrow> mw" where
  "blockBrowserNav get req =
     (if req_method req = ''GET'' \<and> req_path req \<noteq> ''/health'' then
        (case get ''sec-fetch-dest'' of
           Inl err \<Rightarrow> Next
         | Inr d \<Rightarrow>
            (case get ''sec-fetch-mode'' of
               Inl err \<Rightarrow> Next
             | Inr m \<Rightarrow>
                (case get ''accept'' of
                   Inl err \<Rightarrow> Next
                 | Inr a \<Rightarrow>
                    (let dest = toLowerCase (strOr d []);
                         mode = toLowerCase (strOr m []);
                         accept = toLowerCase (strOr a []);
                         isDocumentNav =
                           (mode = ''navigate'' \<or> dest = ''document'' \<or>
                            (includesStr accept ''text/html'' \<and>
                             \<not> includesStr accept ''application/json''))
                     in if isDocumentNav
                        then Respond \<lparr>res_status = 204, res_body = NoContent\<rparr>
                        else Next))))
      else Next)"

section \<open>Type validation helpers\<close>

definition ALLOWED_TYPES :: "string list" where
  "ALLOWED_TYPES = [''swim'', ''run'']"

text \<open>\<^verbatim>\<open>normalizeType\<close> raises what \<^verbatim>\<open>String(input)\<close> raises.\<close>

definition normalizeType :: "(jsnum \<Rightarrow> string) \<Rightarrow> jsval \<Rightarrow> string + string" where
  "normalizeType ns input =
     (if \<not> truthy input then Inr ''swim''
      else (case String ns input of
              Inl err \<Rightarrow> Inl err
            | Inr s \<Rightarrow> Inr (trim (toLowerCase s))))"

definition isValidType :: "string \<Rightarrow> bool" where
  "isValidType t = (t \<in> set ALLOWED_TYPES)"

section \<open>Session store\<close>

text \<open>
  The \<^verbatim>\<open>sessions\<close> table behind \<^verbatim>\<open>pool.query\<close>. A row holds the four values that were
  bound when it was written; the coercions, collation and date checking of MySQL are not
  modelled, and \<^verbatim>\<open>DATE_FORMAT\<close> gives back the stored date text. The column \<^verbatim>\<open>id\<close> is the
  table's key, so inserting an id that is already there is refused. A query returns
  \<open>Inl msg\<close> when the promise is rejected with an error of that message: every query of
  a store whose \<open>failing\<close> is set (the database cannot be reached), and a refused insert.
\<close>

record row =
  row_id :: jsval
  row_date :: jsval
  row_distance :: jsval
  row_type :: jsval

record db =
  sessions :: "row list"
  failing :: "string option"

text \<open>\<^verbatim>\<open>SELECT 1 AS ok\<close>\<close>

definition query_ping :: "db \<Rightarrow> string + jsval list" where
  "query_ping d =
     (case failing d of
        Some msg \<Rightarrow> Inl msg
      | None \<Rightarrow> Inr [JObj [(''ok'', JNum (Fin 1))]])"

text \<open>
  \<^verbatim>\<open>SELECT id, DATE_FORMAT(date, '%Y-%m-%d') AS date, distance, type FROM sessions\<close>,
  with \<^verbatim>\<open>WHERE type = ?\<close> when a type is given, \<^verbatim>\<open>ORDER BY date ASC\<close>. ISO dates sort
  as text; rows of equal date keep their table order.
\<close>

definition date_key :: "row \<Rightarrow> string" where
  "date_key r = (case row_date r of JStr s \<Rightarrow> s | _ \<Rightarrow> [])"

definition query_select :: "string option \<Rightarrow> db \<Rightarrow> string + row list" where
  "query_select ty d =
     (case failing d of
        Some msg \<Rightarrow> Inl msg
      | None \<Rightarrow>
          Inr (sort_key date_key
                 (case ty of
                    None \<Rightarrow> sessions d
                  | Some t \<Rightarrow> filter (\<lambda>r. row_type r = JStr t) (sessions d))))"

text \<open>\<^verbatim>\<open>INSERT INTO sessions (id, date, distance, type) VALUES (?, ?, ?, ?)\<close>\<close>

definition query_insert :: "jsval \<Rightarrow> jsval \<Rightarrow> jsnum \<Rightarrow> string \<Rightarrow> db \<Rightarrow> string + db" where
  "query_insert newId date distNum t d =
     (case failing d of
        Some msg \<Rightarrow> Inl msg
      | None \<Rightarrow>
          if newId \<in> set (map row_id (sessions d)) then Inl ''Duplicate entry''
          else Inr (d\<lparr>sessions := sessions d @
                      [\<lparr>row_id = newId, row_date = date,
                        row_distance = JNum distNum, row_type = JStr t\<rparr>]\<rparr>))"

text \<open>
  \<^verbatim>\<open>UPDATE sessions SET ... WHERE id = ?\<close>. The handler builds the \<^verbatim>\<open>SET\<close> list as it goes
  (\<^verbatim>\<open>fields.push("date = ?"); params.push(date)\<close>); here each assignment is the pair of
  the column and the value bound to it. The number returned is \<^verbatim>\<open>affectedRows\<close>, the
  rows the \<^verbatim>\<open>WHERE\<close> matched.
\<close>

definition set_column :: "row \<Rightarrow> string \<times> jsval \<Rightarrow> row" where
  "set_column r a =
     (if fst a = ''date'' then r\<lparr>row_date := snd a\<rparr>
      else if fst a = ''distance'' then r\<lparr>row_distance := snd a\<rparr>
      else if fst a = ''type'' then r\<lparr>row_type := snd a\<rparr>
      else r)"

definition query_update :: "(string \<times> jsval) list \<Rightarrow> string \<Rightarrow> db \<Rightarrow> string + nat \<times> db" where
  "query_update sets ident d =
     (case failing d of
        Some msg \<Rightarrow> Inl msg
      | None \<Rightarrow>
          Inr (length (filter (\<lambda>r. row_id r = JStr ident) (sessions d)),
               d\<lparr>sessions :=
                   map (\<lambda>r. if row_id r = JStr ident then foldl set_column r sets else r)
                     (sessions d)\<rparr>))"

text \<open>\<^verbatim>\<open>DELETE FROM sessions WHERE id = ?\<close>\<close>

definition query_delete :: "string \<Rightarrow> db \<Rightarrow> string + nat \<times> db" where
  "query_delete ident d =
     (case failing d of
        Some msg \<Rightarrow> Inl msg
      | None \<Rightarrow>
          Inr (length (filter (\<lambda>r. row_id r = JStr ident) (sessions d)),
               d\<lparr>sessions := filter (\<lambda>r. row_id r \<noteq> JStr ident) (sessions d)\<rparr>))"

definition row_json :: "row \<Rightarrow> jsval" where
  "row_json r =
     JObj [(''id'', row_id r), (''date'', row_date r),
           (''distance'', row_distance r), (''type'', row_type r)]"

section \<open>Route handlers\<close>

text \<open>
  A handler takes the store and returns the response with the store it leaves. The
  protected routes run \<^verbatim>\<open>requireEditAuth\<close> first, as their registration lists it.
  Each handler body is a \<^verbatim>\<open>try\<close> whose \<^verbatim>\<open>catch\<close> answers 500 with the error's message: that
  is the branch of a rejected query and of a conversion that raises.
  Message texts are the source's, the accented letters of the French ones written
  without their accents.
\<close>

definition get_health :: "db \<Rightarrow> response \<times> db" where
  "get_health d =
     (case query_ping d of
        Inl msg \<Rightarrow> (res_json 500 (JObj [(''ok'', JBool False), (''error'', JStr msg)]), d)
      | Inr rows \<Rightarrow>
          (res_json 200
             (JObj [(''ok'', JBool True),
                    (''db'', JBool (case rows of
                                     [] \<Rightarrow> False
                                   | r # rs \<Rightarrow> member r ''ok'' = JNum (Fin 1)))]), d))"

definition get_auth_check :: "env \<Rightarrow> request \<Rightarrow> db \<Rightarrow> response \<times> db" where
  "get_auth_check e req d =
     (case requireEditAuth e req of
        Respond r \<Rightarrow> (r, d)
      | Next \<Rightarrow> (res_json 200 (JObj [(''ok'', JBool True)]), d))"

definition get_sessions :: "(jsnum \<Rightarrow> string) \<Rightarrow> request \<Rightarrow> db \<Rightarrow> response \<times> db" where
  "get_sessions ns req d =
     (case (if truthy (req_query_type req)
            then (case normalizeType ns (req_query_type req) of
                    Inl err \<Rightarrow> Inl err
                  | Inr t \<Rightarrow> Inr (Some t))
            else Inr None) of
        Inl err \<Rightarrow> (res_error 500 err, d)
      | Inr type \<Rightarrow>
         (let given = (case type of None \<Rightarrow> None | Some t \<Rightarrow> if t = [] then None else Some t)
          in if (case given of None \<Rightarrow> False | Some t \<Rightarrow> \<not> isValidType t)
             then (res_error 400 ''type invalide (swim|run)'', d)
             else (case query_select given d of
                     Inl msg \<Rightarrow> (res_error 500 msg, d)
                   | Inr rows \<Rightarrow> (res_json 200 (JArr (map row_json rows)), d))))"

text \<open>\<open>uuid\<close> is what \<^verbatim>\<open>uuidv4()\<close> returns if the handler calls it.\<close>

definition post_sessions ::
  "(jsnum \<Rightarrow> string) \<Rightarrow> env \<Rightarrow> string \<Rightarrow> request \<Rightarrow> db \<Rightarrow> response \<times> db" where
  "post_sessions ns e uuid req d =
     (case requireEditAuth e req of
        Respond r \<Rightarrow> (r, d)
      | Next \<Rightarrow>
         (let body = (if truthy (req_body req) then req_body req else JObj []);
              distance = member body ''distance'';
              date = member body ''date'';
              ident = member body ''id'';
              type = member body ''type''
          in case normalizeType ns type of
               Inl err \<Rightarrow> (res_error 500 err, d)
             | Inr t \<Rightarrow>
                if \<not> truthy date then (res_error 400 ''date requise'', d)
                else if distance = JUndefined \<or> distance = JNull \<or> distance = JStr []
                then (res_error 400 ''distance requise'', d)
                else
                 (case Number ns distance of
                    Inl err \<Rightarrow> (res_error 500 err, d)
                  | Inr distNum \<Rightarrow>
                     if \<not> isFinite distNum \<or> leZero distNum
                     then (res_error 400 ''distance invalide'', d)
                     else if \<not> isValidType t
                     then (res_error 400 ''type invalide (swim|run)'', d)
                     else
                      (let newId = (if truthy ident then ident else JStr uuid)
                       in case query_insert newId date distNum t d of
                            Inl msg \<Rightarrow> (res_error 500 msg, d)
                          | Inr d' \<Rightarrow>
                              (res_json 201
                                 (JObj [(''id'', newId), (''date'', date),
                                        (''distance'', JNum distNum), (''type'', JStr t)]),
                               d')))))"

text \<open>
  In \<^verbatim>\<open>put_sessions\<close> each of the two optional validations either returns early
  (\<open>Inl\<close> of the response: the 400 of a refused value, the 500 of a conversion that
  raised) or goes on with the \<^verbatim>\<open>SET\<close> list it has extended (\<open>Inr\<close>).
\<close>

definition put_sessions ::
  "(jsnum \<Rightarrow> string) \<Rightarrow> env \<Rightarrow> string \<Rightarrow> request \<Rightarrow> db \<Rightarrow> response \<times> db" where
  "put_sessions ns e ident req d =
     (case requireEditAuth e req of
        Respond r \<Rightarrow> (r, d)
      | Next \<Rightarrow>
         (let body = (if truthy (req_body req) then req_body req else JObj []);
              distance = member body ''distance'';
              date = member body ''date'';
              type = member body ''type''
          in if distance = JUndefined \<and> \<not> truthy date \<and> type = JUndefined
             then (res_error 400 ''aucune donnee a mettre a jour'', d)
             else
              (let fields1 = (if truthy date then [(''date'', date)] else [])
               in case (if distance \<noteq> JUndefined then
                          (case Number ns distance of
                             Inl err \<Rightarrow> Inl (res_error 500 err)
                           | Inr distNum \<Rightarrow>
                              if \<not> isFinite distNum \<or> leZero distNum
                              then Inl (res_error 400 ''distance invalide'')
                              else Inr (fields1 @ [(''distance'', JNum distNum)]))
                        else Inr fields1) of
                    Inl r \<Rightarrow> (r, d)
                  | Inr fields2 \<Rightarrow>
                     (case (if type \<noteq> JUndefined then
                              (case normalizeType ns type of
                                 Inl err \<Rightarrow> Inl (res_error 500 err)
                               | Inr t \<Rightarrow>
                                  if \<not> isValidType t
                                  then Inl (res_error 400 ''type invalide (swim|run)'')
                                  else Inr (fields2 @ [(''type'', JStr t)]))
                            else Inr fields2) of
                        Inl r \<Rightarrow> (r, d)
                      | Inr fields3 \<Rightarrow>
                         (case query_update fields3 ident d of
                            Inl msg \<Rightarrow> (res_error 500 msg, d)
                          | Inr (affectedRows, d') \<Rightarrow>
                              if affectedRows = 0 then (res_error 404 ''not found'', d')
                              else (res_json 200
                                      (JObj [(''id'', JStr ident), (''date'', date),
                                             (''distance'', distance), (''type'', type)]),
                                    d'))))))"

definition delete_sessions :: "env \<Rightarrow> string \<Rightarrow> request \<Rightarrow> db \<Rightarrow> response \<times> db" where
  "delete_sessions e ident req d =
     (case requireEditAuth e req of
        Respond r \<Rightarrow> (r, d)
      | Next \<Rightarrow>
         (case query_delete ident d of
            Inl msg \<Rightarrow> (res_error 500 msg, d)
          | Inr (affectedRows, d') \<Rightarrow>
              if affectedRows = 0 then (res_error 404 ''not found'', d')
              else (\<lparr>res_status = 204, res_body = NoContent\<rparr>, d')))"

section \<open>Router and mounting\<close>

text \<open>
  Express matches a route path without regard to letter case and with an optional
  trailing slash (its default settings, which the source keeps); a \<^verbatim>\<open>:id\<close> segment is one
  or more characters other than a slash. A route registered with \<^verbatim>\<open>get\<close> also serves
  \<^verbatim>\<open>HEAD\<close>. Express hands the handler the \<^verbatim>\<open>decodeURIComponent\<close> of the segment; a
  segment without a percent sign is its own decoding, and the model takes the segment as
  it stands: a path with a percent escape is outside it.
\<close>

definition matchPath :: "string \<Rightarrow> string \<Rightarrow> bool" where
  "matchPath pat p = (toLowerCase p = pat \<or> toLowerCase p = pat @ ''/'')"

definition dropSlash :: "string \<Rightarrow> string" where
  "dropSlash s = (if s \<noteq> [] \<and> last s = CHR ''/'' then butlast s else s)"

definition matchParam :: "string \<Rightarrow> string \<Rightarrow> string option" where
  "matchParam pre p =
     (if toLowerCase (take (length pre) p) = pre
      then (let seg = dropSlash (drop (length pre) p)
            in if seg \<noteq> [] \<and> CHR ''/'' \<notin> set seg then Some seg else None)
      else None)"

definition isGet :: "request \<Rightarrow> bool" where
  "isGet req = (req_method req = ''GET'' \<or> req_method req = ''HEAD'')"

text \<open>
  The router \<^verbatim>\<open>api\<close>: \<^verbatim>\<open>api.use(blockBrowserNav)\<close> runs for every request that enters
  the router, then the routes are tried in the order they were registered. \<open>None\<close> is
  a request no route took: the router calls \<^verbatim>\<open>next()\<close> and the application goes on.
\<close>

definition api ::
  "(jsnum \<Rightarrow> string) \<Rightarrow> env \<Rightarrow> string \<Rightarrow> request \<Rightarrow> db \<Rightarrow> (response \<times> db) option" where
  "api ns e uuid req d =
     (case blockBrowserNav (\<lambda>h. Inr (req_get req h)) req of
        Respond r \<Rightarrow> Some (r, d)
      | Next \<Rightarrow>
          if isGet req \<and> matchPath ''/health'' (req_path req) then Some (get_health d)
          else if isGet req \<and> matchPath ''/auth/check'' (req_path req)
          then Some (get_auth_check e req d)
          else if isGet req \<and> matchPath ''/sessions'' (req_path req)
          then Some (get_sessions ns req d)
          else if req_method req = ''POST'' \<and> matchPath ''/sessions'' (req_path req)
          then Some (post_sessions ns e uuid req d)
          else if req_method req = ''PUT''
          then (case matchParam ''/sessions/'' (req_path req) of
                  Some ident \<Rightarrow> Some (put_sessions ns e ident req d)
                | None \<Rightarrow> None)
          else if req_method req = ''DELETE''
          then (case matchParam ''/sessions/'' (req_path req) of
                  Some ident \<Rightarrow> Some (delete_sessions e ident req d)
                | None \<Rightarrow> None)
          else None)"

text \<open>
  \<^verbatim>\<open>app.use("/api", api)\<close> takes a path that starts with \<^verbatim>\<open>/api\<close> at a segment boundary
  and hands the router the rest of it (\<^verbatim>\<open>/\<close> when nothing is left).
\<close>

definition stripMount :: "string \<Rightarrow> string \<Rightarrow> string option" where
  "stripMount pre p =
     (if toLowerCase (take (length pre) p) = pre \<and>
         (drop (length pre) p = [] \<or> hd (drop (length pre) p) = CHR ''/'')
      then Some (if drop (length pre) p = [] then ''/'' else drop (length pre) p)
      else None)"

text \<open>
  The application from its first mount on, for a request the \<^verbatim>\<open>cors\<close> and
  \<^verbatim>\<open>express.json\<close> middleware have passed along (neither looks at the path; a preflight
  \<^verbatim>\<open>OPTIONS\<close> is answered before the mounts and is not a request of this model):
  \<^verbatim>\<open>app.use("/", api)\<close>, which every path enters unchanged, then \<^verbatim>\<open>app.use("/api", api)\<close>,
  then \<^verbatim>\<open>app.get("/")\<close>, and Express's own 404 page when nothing answered.
\<close>

definition app_rest :: "request \<Rightarrow> db \<Rightarrow> response \<times> db" where
  "app_rest req d =
     (if isGet req \<and> req_path req = ''/''
      then (\<lparr>res_status = 200, res_body = Text ''API up''\<rparr>, d)
      else (\<lparr>res_status = 404, res_body = DefaultPage\<rparr>, d))"

definition app ::
  "(jsnum \<Rightarrow> string) \<Rightarrow> env \<Rightarrow> string \<Rightarrow> request \<Rightarrow> db \<Rightarrow> response \<times> db" where
  "app ns e uuid req d =
     (case api ns e uuid req d of
        Some out \<Rightarrow> out
      | None \<Rightarrow>
         (case stripMount ''/api'' (req_path req) of
            None \<Rightarrow> app_rest req d
          | Some rest \<Rightarrow>
             (case api ns e uuid (req\<lparr>req_path := rest\<rparr>) d of
                Some out \<Rightarrow> out
              | None \<Rightarrow> app_rest req d)))"

section \<open>Example values\<close>

text \<open>Concrete configuration, requests and store contents for the instances below.\<close>

definition ex_env :: env where
  "ex_env = \<lparr>EDIT_TOKEN = Some ''s3cret'',
             CORS_ORIGIN = Some ''https://natrack.prjski.com, http://localhost:3000''\<rparr>"

definition mk_request ::
  "string \<Rightarrow> string \<Rightarrow> (string \<Rightarrow> string option) \<Rightarrow> jsval \<Rightarrow> jsval \<Rightarrow> request" where
  "mk_request m p hs q b =
     \<lparr>req_method = m, req_path = p, req_headers = hs, req_query_type = q, req_body = b\<rparr>"

definition ex_ns :: "jsnum \<Rightarrow> string" where
  "ex_ns n = ''0''"

definition ex_key :: "string \<Rightarrow> string option" where
  "ex_key = (\<lambda>h. if h = ''x-api-key'' then Some ''s3cret'' else None)"

definition ex_navigate :: "string \<Rightarrow> string option" where
  "ex_navigate = (\<lambda>h. if h = ''sec-fetch-mode'' then Some ''navigate'' else None)"

definition ex_row :: row where
  "ex_row = \<lparr>row_id = JStr ''a1'', row_date = JStr ''2023-12-24'',
             row_distance = JNum (Fin 750), row_type = JStr ''run''\<rparr>"

definition ex_db :: db where
  "ex_db = \<lparr>sessions = [ex_row], failing = None\<rparr>"

section \<open>Auxiliary facts\<close>

lemma startsWith_append: "startsWith (p @ s) p"
  by (induction p) auto

lemma startsWith_iff: "startsWith s p = (\<exists>r. s = p @ r)"
proof (induction s p rule: startsWith.induct)
  case (1 s)
  show ?case by simp
next
  case (2 p ps)
  show ?case by simp
next
  case (3 c cs p ps)
  then show ?case by auto
qed

lemma lower_not_upper: "c \<in> set lowerCaseChars \<Longrightarrow> c \<notin> set upperCaseChars"
  by (auto simp: upperCaseChars_def lowerCaseChars_def)

lemma toLowerChar_idem: "toLowerChar (toLowerChar c) = toLowerChar c"
proof (cases "map_of (zip upperCaseChars lowerCaseChars) c")
  case None
  then show ?thesis by (simp add: toLowerChar_def)
next
  case (Some d)
  then have "d \<in> set lowerCaseChars"
    by (meson in_set_zipE map_of_SomeD)
  then have "d \<notin> set upperCaseChars"
    by (rule lower_not_upper)
  then have "map_of (zip upperCaseChars lowerCaseChars) d = None"
    by (metis in_set_zipE map_of_SomeD not_Some_eq)
  with Some show ?thesis by (simp add: toLowerChar_def)
qed

lemma last_dropWhile: "dropWhile P xs \<noteq> [] \<Longrightarrow> last (dropWhile P xs) = last xs"
  by (induction xs) (auto split: if_splits)

lemma dropWhile_id: "xs = [] \<or> \<not> P (hd xs) \<Longrightarrow> dropWhile P xs = xs"
  by (cases xs) auto

text \<open>A trimmed string neither starts nor ends with white space.\<close>

lemma trim_ends:
  "trim s = [] \<or> (\<not> isWhiteSpace (hd (trim s)) \<and> \<not> isWhiteSpace (last (trim s)))"
proof (cases "trim s = []")
  case True
  then show ?thesis by simp
next
  case False
  define ys where "ys = dropWhile isWhiteSpace s"
  define zs where "zs = dropWhile isWhiteSpace (rev ys)"
  have t: "trim s = rev zs"
    by (simp add: trim_def ys_def zs_def)
  with False have zs: "zs \<noteq> []" by simp
  then have ys: "ys \<noteq> []" by (auto simp: zs_def)
  have "\<not> isWhiteSpace (hd zs)"
    using zs hd_dropWhile [of isWhiteSpace "rev ys"] by (simp add: zs_def)
  moreover have "last zs = last (rev ys)"
    using zs last_dropWhile [of isWhiteSpace "rev ys"] by (simp add: zs_def)
  moreover have "last (rev ys) = hd ys"
    using ys by (simp add: last_rev)
  moreover have "\<not> isWhiteSpace (hd ys)"
    using ys hd_dropWhile [of isWhiteSpace s] by (simp add: ys_def)
  ultimately show ?thesis
    using zs by (simp add: t hd_rev last_rev)
qed

lemma trim_idem: "trim (trim s) = trim s"
proof -
  have a: "dropWhile isWhiteSpace (trim s) = trim s"
    using trim_ends [of s] by (intro dropWhile_id) auto
  have b: "dropWhile isWhiteSpace (rev (trim s)) = rev (trim s)"
    using trim_ends [of s] by (intro dropWhile_id) (auto simp: hd_rev)
  show ?thesis
    unfolding trim_def [of "trim s"] a b by simp
qed

lemma set_trim: "set (trim s) \<subseteq> set s"
proof -
  have "set (trim s) \<subseteq> set (dropWhile isWhiteSpace s)"
    unfolding trim_def
    using set_dropWhileD [of _ isWhiteSpace "rev (dropWhile isWhiteSpace s)"] by auto
  then show ?thesis
    using set_dropWhileD [of _ isWhiteSpace s] by blast
qed

lemma toLowerCase_trim: "toLowerCase (trim (toLowerCase s)) = trim (toLowerCase s)"
proof -
  have "\<forall>c \<in> set (trim (toLowerCase s)). toLowerChar c = c"
    using set_trim [of "toLowerCase s"] by (auto simp: toLowerCase_def toLowerChar_idem)
  then show ?thesis
    unfolding toLowerCase_def [of "trim (toLowerCase s)"] by (simp add: map_idI)
qed

lemma toLowerCase_swim: "toLowerCase ''swim'' = ''swim''"
  by (simp add: toLowerCase_def toLowerChar_def upperCaseChars_def lowerCaseChars_def)

lemma trim_swim: "trim ''swim'' = ''swim''"
  by (simp add: trim_def isWhiteSpace_def)

lemma WHITELIST_ex_env:
  "WHITELIST ex_env = [''https://natrack.prjski.com'', ''http://localhost:3000'']"
  by (simp add: WHITELIST_def ex_env_def strOr_def trim_def isWhiteSpace_def)

text \<open>The candidate token, header by header.\<close>

lemma editToken_cases:
  "editToken req =
     (case req_get req ''x-api-key'' of
        Some k \<Rightarrow>
          if k \<noteq> [] then Some k
          else (case req_get req ''authorization'' of
                  Some a \<Rightarrow> if startsWith a ''Bearer '' then Some (drop 7 a) else None
                | None \<Rightarrow> None)
      | None \<Rightarrow>
          (case req_get req ''authorization'' of
             Some a \<Rightarrow> if startsWith a ''Bearer '' then Some (drop 7 a) else None
           | None \<Rightarrow> None))"
  by (auto simp: editToken_def strOr_def Let_def split: option.splits)

lemma requireEditAuth_Next:
  "(requireEditAuth e req = Next) =
     (\<exists>s. s \<noteq> [] \<and> EDIT_TOKEN e = Some s \<and> editToken req = Some s)"
  by (auto simp: requireEditAuth_def strOr_def Let_def split: option.splits)

lemma requireEditAuth_cases:
  "requireEditAuth e req = Next \<or>
   requireEditAuth e req =
     Respond \<lparr>res_status = 401, res_body = Json (JObj [(''error'', JStr ''unauthorized'')])\<rparr>"
  by (simp add: requireEditAuth_def Let_def res_error_def res_json_def)

lemma requireEditAuth_ex_key:
  "requireEditAuth ex_env (mk_request m p ex_key q b) = Next"
  by (simp add: requireEditAuth_def editToken_def req_get_def strOr_def ex_env_def
      mk_request_def ex_key_def toLowerCase_def toLowerChar_def upperCaseChars_def lowerCaseChars_def)

lemma requireEditAuth_no_headers:
  "requireEditAuth ex_env (mk_request m p (\<lambda>h. None) q b) \<noteq> Next"
  by (simp add: requireEditAuth_def editToken_def req_get_def strOr_def ex_env_def
      mk_request_def)

lemma blockBrowserNav_total:
  "blockBrowserNav (\<lambda>h. Inr (hs h)) req =
     (if req_method req = ''GET'' \<and> req_path req \<noteq> ''/health'' \<and>
         (toLowerCase (strOr (hs ''sec-fetch-mode'') []) = ''navigate'' \<or>
          toLowerCase (strOr (hs ''sec-fetch-dest'') []) = ''document'' \<or>
          includesStr (toLowerCase (strOr (hs ''accept'') [])) ''text/html'' \<and>
          \<not> includesStr (toLowerCase (strOr (hs ''accept'') [])) ''application/json'')
      then Respond \<lparr>res_status = 204, res_body = NoContent\<rparr>
      else Next)"
  by (simp add: blockBrowserNav_def Let_def)

section \<open>Auth gate\<close>

text \<open>
  Claim C1. The auth gate lets a request through to the protected handler exactly when
  the configured secret is non-empty and the candidate token equals it, the candidate
  being the \<^verbatim>\<open>X-API-Key\<close> value or, when that header is absent or empty, what follows
  \<^verbatim>\<open>Bearer \<close> in \<^verbatim>\<open>Authorization\<close>. In every other case the gate answers 401
  \<^verbatim>\<open>{error: "unauthorized"}\<close>, and each of the four routes it protects returns that
  response with the store as it was.
\<close>

theorem requireEditAuth_gate:
  "(requireEditAuth e req = Next) =
     (\<exists>s. s \<noteq> [] \<and> EDIT_TOKEN e = Some s \<and>
          (req_get req ''x-api-key'' = Some s \<or>
           (req_get req ''x-api-key'' = None \<or> req_get req ''x-api-key'' = Some []) \<and>
           req_get req ''authorization'' = Some (''Bearer '' @ s))) \<and>
   (requireEditAuth e req \<noteq> Next \<longrightarrow>
      requireEditAuth e req =
        Respond \<lparr>res_status = 401, res_body = Json (JObj [(''error'', JStr ''unauthorized'')])\<rparr> \<and>
      post_sessions ns e uuid req d =
        (\<lparr>res_status = 401, res_body = Json (JObj [(''error'', JStr ''unauthorized'')])\<rparr>, d) \<and>
      put_sessions ns e ident req d =
        (\<lparr>res_status = 401, res_body = Json (JObj [(''error'', JStr ''unauthorized'')])\<rparr>, d) \<and>
      delete_sessions e ident req d =
        (\<lparr>res_status = 401, res_body = Json (JObj [(''error'', JStr ''unauthorized'')])\<rparr>, d) \<and>
      get_auth_check e req d =
        (\<lparr>res_status = 401, res_body = Json (JObj [(''error'', JStr ''unauthorized'')])\<rparr>, d))"
proof -
  have iff: "(requireEditAuth e req = Next) =
     (\<exists>s. s \<noteq> [] \<and> EDIT_TOKEN e = Some s \<and>
          (req_get req ''x-api-key'' = Some s \<or>
           (req_get req ''x-api-key'' = None \<or> req_get req ''x-api-key'' = Some []) \<and>
           req_get req ''authorization'' = Some (''Bearer '' @ s)))"
    unfolding requireEditAuth_Next editToken_cases
    by (auto simp: startsWith_iff split: option.splits)
  have rej: "requireEditAuth e req \<noteq> Next \<Longrightarrow>
      requireEditAuth e req =
        Respond \<lparr>res_status = 401, res_body = Json (JObj [(''error'', JStr ''unauthorized'')])\<rparr>"
    using requireEditAuth_cases [of e req] by blast
  show ?thesis
    using iff rej
    by (auto simp: post_sessions_def put_sessions_def delete_sessions_def get_auth_check_def)
qed

text \<open>
  Instances, on a server whose secret is \<^verbatim>\<open>s3cret\<close>: a \<^verbatim>\<open>DELETE\<close> without any token
  against a store of one row is answered 401 and the row stays; a request with
  \<^verbatim>\<open>X-API-Key: s3cret\<close> passes the gate.
\<close>

theorem requireEditAuth_gate_witness:
  "requireEditAuth ex_env
     (mk_request ''DELETE'' ''/sessions/a1'' (\<lambda>h. None) JUndefined JUndefined) \<noteq> Next \<and>
   delete_sessions ex_env ''a1''
     (mk_request ''DELETE'' ''/sessions/a1'' (\<lambda>h. None) JUndefined JUndefined) ex_db =
     (\<lparr>res_status = 401, res_body = Json (JObj [(''error'', JStr ''unauthorized'')])\<rparr>, ex_db) \<and>
   requireEditAuth ex_env
     (mk_request ''DELETE'' ''/sessions/a1'' ex_key JUndefined JUndefined) = Next"
proof -
  have a: "requireEditAuth ex_env
     (mk_request ''DELETE'' ''/sessions/a1'' (\<lambda>h. None) JUndefined JUndefined) \<noteq> Next \<and>
   delete_sessions ex_env ''a1''
     (mk_request ''DELETE'' ''/sessions/a1'' (\<lambda>h. None) JUndefined JUndefined) ex_db =
     (\<lparr>res_status = 401, res_body = Json (JObj [(''error'', JStr ''unauthorized'')])\<rparr>, ex_db)"
    using requireEditAuth_no_headers [of "''DELETE''" "''/sessions/a1''" JUndefined JUndefined]
      requireEditAuth_gate [of ex_env
        "mk_request ''DELETE'' ''/sessions/a1'' (\<lambda>h. None) JUndefined JUndefined"
        "\<lambda>n. []" "[]" ex_db "''a1''"]
    by blast
  have b: "requireEditAuth ex_env
     (mk_request ''DELETE'' ''/sessions/a1'' ex_key JUndefined JUndefined) = Next"
    using requireEditAuth_gate [of ex_env
        "mk_request ''DELETE'' ''/sessions/a1'' ex_key JUndefined JUndefined"
        "\<lambda>n. []" "[]" ex_db "''a1''"]
    by (simp add: req_get_def mk_request_def ex_key_def ex_env_def toLowerCase_def
        toLowerChar_def upperCaseChars_def lowerCaseChars_def)
  from a b show ?thesis by simp
qed

text \<open>
  Claim C9. An \<^verbatim>\<open>X-API-Key\<close> header that is present but empty does not shadow the
  \<^verbatim>\<open>Authorization\<close> header and does not by itself reject: with it (as with no
  \<^verbatim>\<open>X-API-Key\<close> at all) and \<^verbatim>\<open>Authorization: Bearer t\<close>, the token compared with the
  secret is \<open>t\<close>. A non-empty \<^verbatim>\<open>X-API-Key\<close> is the token, whatever \<^verbatim>\<open>Authorization\<close> holds.
\<close>

theorem editToken_precedence:
  "(req_get req ''x-api-key'' = Some [] \<and>
    req_get req ''authorization'' = Some (''Bearer '' @ t) \<longrightarrow>
      editToken req = Some t \<and>
      (requireEditAuth e req = Next) = (t \<noteq> [] \<and> EDIT_TOKEN e = Some t)) \<and>
   (req_get req ''x-api-key'' = None \<and>
    req_get req ''authorization'' = Some (''Bearer '' @ t) \<longrightarrow> editToken req = Some t) \<and>
   (req_get req ''x-api-key'' = Some k \<and> k \<noteq> [] \<longrightarrow>
      editToken req = Some k \<and>
      (requireEditAuth e req = Next) = (EDIT_TOKEN e = Some k))"
  unfolding requireEditAuth_Next editToken_cases
  by (auto simp: startsWith_append)

text \<open>
  Instances, on a server whose secret is \<^verbatim>\<open>s3cret\<close>: an empty \<^verbatim>\<open>X-API-Key\<close> beside
  \<^verbatim>\<open>Authorization: Bearer s3cret\<close> passes the gate; \<^verbatim>\<open>X-API-Key: wrong\<close> beside the same
  \<^verbatim>\<open>Authorization\<close> makes \<^verbatim>\<open>wrong\<close> the token and does not pass.
\<close>

theorem editToken_precedence_witness:
  "editToken (mk_request ''POST'' ''/sessions''
      (\<lambda>h. if h = ''x-api-key'' then Some []
            else if h = ''authorization'' then Some ''Bearer s3cret'' else None)
      JUndefined JUndefined) = Some ''s3cret'' \<and>
   requireEditAuth ex_env (mk_request ''POST'' ''/sessions''
      (\<lambda>h. if h = ''x-api-key'' then Some []
            else if h = ''authorization'' then Some ''Bearer s3cret'' else None)
      JUndefined JUndefined) = Next \<and>
   editToken (mk_request ''POST'' ''/sessions''
      (\<lambda>h. if h = ''x-api-key'' then Some ''wrong''
            else if h = ''authorization'' then Some ''Bearer s3cret'' else None)
      JUndefined JUndefined) = Some ''wrong'' \<and>
   requireEditAuth ex_env (mk_request ''POST'' ''/sessions''
      (\<lambda>h. if h = ''x-api-key'' then Some ''wrong''
            else if h = ''authorization'' then Some ''Bearer s3cret'' else None)
      JUndefined JUndefined) \<noteq> Next"
  using editToken_precedence [of "mk_request ''POST'' ''/sessions''
      (\<lambda>h. if h = ''x-api-key'' then Some []
            else if h = ''authorization'' then Some ''Bearer s3cret'' else None)
      JUndefined JUndefined" "''s3cret''" ex_env]
    editToken_precedence [where req = "mk_request ''POST'' ''/sessions''
      (\<lambda>h. if h = ''x-api-key'' then Some ''wrong''
            else if h = ''authorization'' then Some ''Bearer s3cret'' else None)
      JUndefined JUndefined" and k = "''wrong''" and e = ex_env]
  by (simp add: req_get_def mk_request_def toLowerCase_def toLowerChar_def upperCaseChars_def lowerCaseChars_def ex_env_def)

section \<open>Type normalizer\<close>

lemma falsy_cases:
  "(\<not> truthy v) =
     (v = JUndefined \<or> v = JNull \<or> v = JStr [] \<or> v = JBool False \<or>
      v = JNum (Fin 0) \<or> v = JNum NaN)"
  by (cases v) auto

lemma normalizeType_Bike: "normalizeType ns (JStr ''Bike'') = Inr ''bike''"
  by (simp add: normalizeType_def trim_def toLowerCase_def toLowerChar_def upperCaseChars_def
      lowerCaseChars_def isWhiteSpace_def)

text \<open>
  Claim C5 says that \<^verbatim>\<open>normalizeType\<close> returns \<^verbatim>\<open>"swim"\<close> for an absent or empty input and
  the input lower-cased and trimmed for every non-empty input. The function tests
  \<^verbatim>\<open>!input\<close>: the JSON value \<^verbatim>\<open>false\<close> is neither absent nor empty, its string is
  \<^verbatim>\<open>"false"\<close>, and the result is \<^verbatim>\<open>"swim"\<close>. Nor does every input have a result: for an
  object with a member named \<^verbatim>\<open>toString\<close> the call \<^verbatim>\<open>String(input)\<close> raises.
\<close>

theorem normalizeType_falsy_counterexample:
  "String ex_ns (JBool False) = Inr ''false'' \<and>
   trim (toLowerCase ''false'') = ''false'' \<and>
   normalizeType ex_ns (JBool False) = Inr ''swim'' \<and>
   normalizeType ex_ns (JObj [(''toString'', JNum (Fin 1))]) =
     Inl ''Cannot convert object to primitive value''"
  by (simp add: normalizeType_def TypeError_def trim_def toLowerCase_def toLowerChar_def
      upperCaseChars_def lowerCaseChars_def isWhiteSpace_def)

text \<open>
  Claim C5, amended. \<^verbatim>\<open>normalizeType\<close> returns \<^verbatim>\<open>"swim"\<close> for every falsy input: absent
  (\<^verbatim>\<open>undefined\<close>, \<^verbatim>\<open>null\<close>), the empty string, and also \<^verbatim>\<open>false\<close>, 0 and \<^verbatim>\<open>NaN\<close>. For every
  other input it returns \<^verbatim>\<open>String(input)\<close> lower-cased and trimmed, which for a non-empty
  string is the input itself lower-cased and trimmed, and it raises what \<^verbatim>\<open>String(input)\<close>
  raises. A result is always in lower case and trimmed. No allow-list is checked:
  \<^verbatim>\<open>"Bike"\<close> gives \<^verbatim>\<open>"bike"\<close>, which is not an allowed type.
\<close>

theorem normalizeType_contract:
  "(\<not> truthy v) =
     (v = JUndefined \<or> v = JNull \<or> v = JStr [] \<or> v = JBool False \<or>
      v = JNum (Fin 0) \<or> v = JNum NaN) \<and>
   (\<not> truthy v \<longrightarrow> normalizeType ns v = Inr ''swim'') \<and>
   (truthy v \<and> String ns v = Inr s \<longrightarrow> normalizeType ns v = Inr (trim (toLowerCase s))) \<and>
   (truthy v \<and> String ns v = Inl err \<longrightarrow> normalizeType ns v = Inl err) \<and>
   (u \<noteq> [] \<longrightarrow> normalizeType ns (JStr u) = Inr (trim (toLowerCase u))) \<and>
   (normalizeType ns v = Inr r \<longrightarrow> toLowerCase r = r \<and> trim r = r) \<and>
   normalizeType ns (JStr ''Bike'') = Inr ''bike'' \<and> \<not> isValidType ''bike''"
proof -
  have res: "toLowerCase r = r \<and> trim r = r" if "normalizeType ns v = Inr r"
  proof (cases "truthy v")
    case False
    with that have "r = ''swim''" by (simp add: normalizeType_def)
    then show ?thesis by (simp add: toLowerCase_swim trim_swim)
  next
    case True
    with that obtain s where "r = trim (toLowerCase s)"
      by (auto simp: normalizeType_def split: sum.splits)
    then show ?thesis by (simp add: toLowerCase_trim trim_idem)
  qed
  have str: "normalizeType ns (JStr u) = Inr (trim (toLowerCase u))" if "u \<noteq> []"
    using that by (simp add: normalizeType_def)
  have gen: "(\<not> truthy v \<longrightarrow> normalizeType ns v = Inr ''swim'') \<and>
   (truthy v \<and> String ns v = Inr s \<longrightarrow> normalizeType ns v = Inr (trim (toLowerCase s))) \<and>
   (truthy v \<and> String ns v = Inl err \<longrightarrow> normalizeType ns v = Inl err)"
    by (simp add: normalizeType_def)
  have bike: "\<not> isValidType ''bike''"
    by (simp add: isValidType_def ALLOWED_TYPES_def)
  show ?thesis
    using res str gen bike falsy_cases [of v] normalizeType_Bike [of ns] by blast
qed

text \<open>
  Instances: \<^verbatim>\<open>"Swim "\<close> is normalized to \<^verbatim>\<open>"swim"\<close>; the number 0 gives \<^verbatim>\<open>"swim"\<close>; an
  object with a \<^verbatim>\<open>toString\<close> member raises.
\<close>

theorem normalizeType_contract_witness:
  "normalizeType (\<lambda>n. []) (JStr ''Swim '') = Inr ''swim'' \<and>
   normalizeType (\<lambda>n. []) (JNum (Fin 0)) = Inr ''swim'' \<and>
   normalizeType (\<lambda>n. []) (JObj [(''toString'', JNum (Fin 1))]) = Inl TypeError"
  using normalizeType_contract [where ns = "\<lambda>n. []" and u = "''Swim ''" and v = JNull]
    normalizeType_contract [where ns = "\<lambda>n. []" and v = "JNum (Fin 0)"]
    normalizeType_contract [where ns = "\<lambda>n. []" and v = "JObj [(''toString'', JNum (Fin 1))]"
      and err = TypeError]
  by (simp add: trim_def toLowerCase_def toLowerChar_def upperCaseChars_def lowerCaseChars_def
      isWhiteSpace_def)

section \<open>CORS origin decision\<close>

text \<open>
  Claim C6 says that a request with an \<^verbatim>\<open>Origin\<close> outside a non-empty allow-list is
  refused. The decision function tests \<^verbatim>\<open>!origin\<close>, so an \<^verbatim>\<open>Origin\<close> header that is present
  with an empty value is allowed although the allow-list is not empty and does not hold
  it.
\<close>

theorem corsOptions_origin_empty_counterexample:
  "WHITELIST ex_env = [''https://natrack.prjski.com'', ''http://localhost:3000''] \<and>
   corsOptions_origin ex_env (Some []) = Inr True \<and>
   corsOptions_origin_part_000 ex_env (Some []) = Inr True"
  by (simp add: WHITELIST_ex_env corsOptions_origin_def corsOptions_origin_part_000_def)

text \<open>
  Claim C6, amended. A request with no \<^verbatim>\<open>Origin\<close> header, or with an empty one, is always
  allowed. A request with a non-empty \<^verbatim>\<open>Origin\<close> is allowed exactly when the allow-list is
  empty or holds that origin; otherwise \<^verbatim>\<open>app.js\<close> answers \<^verbatim>\<open>false\<close> and the earlier revision
  raises \<^verbatim>\<open>Not allowed by CORS\<close>. The allow-list never holds the empty string.
\<close>

theorem corsOptions_origin_decision:
  "corsOptions_origin e None = Inr True \<and>
   corsOptions_origin e (Some []) = Inr True \<and>
   (orig \<noteq> [] \<longrightarrow>
      corsOptions_origin e (Some orig) = Inr (WHITELIST e = [] \<or> orig \<in> set (WHITELIST e))) \<and>
   corsOptions_origin_part_000 e None = Inr True \<and>
   corsOptions_origin_part_000 e (Some []) = Inr True \<and>
   (orig \<noteq> [] \<longrightarrow>
      corsOptions_origin_part_000 e (Some orig) =
        (if WHITELIST e = [] \<or> orig \<in> set (WHITELIST e) then Inr True
         else Inl ''Not allowed by CORS'')) \<and>
   [] \<notin> set (WHITELIST e)"
proof -
  have "[] \<notin> set (WHITELIST e)"
    by (simp add: WHITELIST_def)
  then show ?thesis
    by (simp add: corsOptions_origin_def corsOptions_origin_part_000_def)
qed

text \<open>An instance: one origin of the allow-list and one outside it.\<close>

theorem corsOptions_origin_decision_witness:
  "corsOptions_origin ex_env (Some ''http://localhost:3000'') = Inr True \<and>
   corsOptions_origin ex_env (Some ''https://evil.example'') = Inr False \<and>
   corsOptions_origin_part_000 ex_env (Some ''https://evil.example'') =
     Inl ''Not allowed by CORS''"
  using corsOptions_origin_decision [of ex_env "''http://localhost:3000''"]
    corsOptions_origin_decision [of ex_env "''https://evil.example''"]
  by (simp add: WHITELIST_ex_env)

section \<open>Navigation blocker\<close>

text \<open>
  Claim C7. Inside the router, a \<^verbatim>\<open>GET\<close> whose path is not \<^verbatim>\<open>/health\<close> is answered 204
  with an empty body, the route handler not reached and the store untouched, when
  \<^verbatim>\<open>Sec-Fetch-Mode\<close> is \<^verbatim>\<open>navigate\<close>, or \<^verbatim>\<open>Sec-Fetch-Dest\<close> is \<^verbatim>\<open>document\<close>, or \<^verbatim>\<open>Accept\<close> contains
  \<^verbatim>\<open>text/html\<close> and not \<^verbatim>\<open>application/json\<close> (all compared in lower case); with none of
  these signals the request passes. An error raised by a header read is swallowed and
  the request passes. A request that is not a \<^verbatim>\<open>GET\<close>, or whose path is \<^verbatim>\<open>/health\<close>, is
  never blocked.
\<close>

theorem blockBrowserNav_contract:
  "blockBrowserNav (\<lambda>h. Inr (hs h)) req =
     (if req_method req = ''GET'' \<and> req_path req \<noteq> ''/health'' \<and>
         (toLowerCase (strOr (hs ''sec-fetch-mode'') []) = ''navigate'' \<or>
          toLowerCase (strOr (hs ''sec-fetch-dest'') []) = ''document'' \<or>
          includesStr (toLowerCase (strOr (hs ''accept'') [])) ''text/html'' \<and>
          \<not> includesStr (toLowerCase (strOr (hs ''accept'') [])) ''application/json'')
      then Respond \<lparr>res_status = 204, res_body = NoContent\<rparr>
      else Next) \<and>
   (blockBrowserNav (\<lambda>h. Inr (req_get req h)) req = Respond r \<longrightarrow>
      r = \<lparr>res_status = 204, res_body = NoContent\<rparr> \<and> api ns e uuid req d = Some (r, d)) \<and>
   (get ''sec-fetch-dest'' = Inl err \<or> get ''sec-fetch-mode'' = Inl err \<or>
    get ''accept'' = Inl err \<longrightarrow> blockBrowserNav get req = Next) \<and>
   (req_method req \<noteq> ''GET'' \<or> req_path req = ''/health'' \<longrightarrow>
      blockBrowserNav get req = Next)"
proof -
  have a: "blockBrowserNav (\<lambda>h. Inr (req_get req h)) req = Respond r \<longrightarrow>
      r = \<lparr>res_status = 204, res_body = NoContent\<rparr> \<and> api ns e uuid req d = Some (r, d)"
    unfolding api_def blockBrowserNav_total by (auto split: if_splits)
  have b: "get ''sec-fetch-dest'' = Inl err \<or> get ''sec-fetch-mode'' = Inl err \<or>
    get ''accept'' = Inl err \<longrightarrow> blockBrowserNav get req = Next"
    by (auto simp: blockBrowserNav_def split: sum.splits)
  have c: "req_method req \<noteq> ''GET'' \<or> req_path req = ''/health'' \<longrightarrow>
      blockBrowserNav get req = Next"
    by (auto simp: blockBrowserNav_def)
  show ?thesis
    using a b c blockBrowserNav_total [of hs req] by blast
qed

text \<open>
  Instances: a \<^verbatim>\<open>GET /sessions\<close> with \<^verbatim>\<open>Sec-Fetch-Mode: navigate\<close> is answered 204 by the
  router, the store as it was; with a header accessor that raises, it passes; a \<^verbatim>\<open>POST\<close>
  with the same header passes.
\<close>

theorem blockBrowserNav_contract_witness:
  "blockBrowserNav
     (\<lambda>h. Inr (req_get (mk_request ''GET'' ''/sessions'' ex_navigate JUndefined JUndefined) h))
     (mk_request ''GET'' ''/sessions'' ex_navigate JUndefined JUndefined) =
     Respond \<lparr>res_status = 204, res_body = NoContent\<rparr> \<and>
   api (\<lambda>n. []) ex_env [] (mk_request ''GET'' ''/sessions'' ex_navigate JUndefined JUndefined)
     ex_db = Some (\<lparr>res_status = 204, res_body = NoContent\<rparr>, ex_db) \<and>
   blockBrowserNav (\<lambda>h. Inl ''boom'')
     (mk_request ''GET'' ''/sessions'' ex_navigate JUndefined JUndefined) = Next \<and>
   blockBrowserNav (\<lambda>h. Inr (ex_navigate h))
     (mk_request ''POST'' ''/sessions'' ex_navigate JUndefined JUndefined) = Next"
proof -
  have blocked: "blockBrowserNav
     (\<lambda>h. Inr (req_get (mk_request ''GET'' ''/sessions'' ex_navigate JUndefined JUndefined) h))
     (mk_request ''GET'' ''/sessions'' ex_navigate JUndefined JUndefined) =
     Respond \<lparr>res_status = 204, res_body = NoContent\<rparr>"
    by (simp add: blockBrowserNav_total req_get_def mk_request_def ex_navigate_def strOr_def
        toLowerCase_def toLowerChar_def upperCaseChars_def lowerCaseChars_def)
  have a: "api (\<lambda>n. []) ex_env []
       (mk_request ''GET'' ''/sessions'' ex_navigate JUndefined JUndefined) ex_db =
       Some (\<lparr>res_status = 204, res_body = NoContent\<rparr>, ex_db) \<and>
     blockBrowserNav (\<lambda>h. Inl ''boom'')
       (mk_request ''GET'' ''/sessions'' ex_navigate JUndefined JUndefined) = Next"
    using blocked
      blockBrowserNav_contract [where
        req = "mk_request ''GET'' ''/sessions'' ex_navigate JUndefined JUndefined" and
        r = "\<lparr>res_status = 204, res_body = NoContent\<rparr>" and
        get = "\<lambda>h. Inl ''boom''" and err = "''boom''" and
        ns = "\<lambda>n. []" and e = ex_env and uuid = "[]" and d = ex_db]
    by simp
  have b: "blockBrowserNav (\<lambda>h. Inr (ex_navigate h))
     (mk_request ''POST'' ''/sessions'' ex_navigate JUndefined JUndefined) = Next"
    using blockBrowserNav_contract [where
        req = "mk_request ''POST'' ''/sessions'' ex_navigate JUndefined JUndefined" and
        get = "\<lambda>h. Inr (ex_navigate h)"]
    by (simp add: mk_request_def)
  from blocked a b show ?thesis by simp
qed

section \<open>Distance validation\<close>

lemma res_error_eq:
  "res_error st msg = \<lparr>res_status = st, res_body = Json (JObj [(''error'', JStr msg)])\<rparr>"
  by (simp add: res_error_def res_json_def)

text \<open>A finite number above zero is what passes \<^verbatim>\<open>!Number.isFinite(n) || n <= 0\<close>.\<close>

lemma valid_distance_iff:
  "(\<exists>q. n = Fin q \<and> 0 < q) = (isFinite n \<and> \<not> leZero n)"
  by (cases n) auto

lemma member_truthy_body:
  "member b k \<noteq> JUndefined \<Longrightarrow> (if truthy b then b else JObj []) = b"
  by (cases b) (auto simp: member_def)

lemma Number_missing:
  "Number ns JUndefined = Inr NaN" "Number ns JNull = Inr (Fin 0)"
  "Number ns (JStr []) = Inr (Fin 0)"
  by (simp_all add: StringToNumber_def trim_def)


lemma StringToNumber_1000: "StringToNumber ''1000'' = Fin 1000"
  by (simp add: StringToNumber_def trim_def toLowerCase_def toLowerChar_def upperCaseChars_def lowerCaseChars_def isWhiteSpace_def
      unsignedDecimal_def exponentPart_def pow10_def toDouble_def isDigit_def isRadixDigit_def
      digitOf_def digitsVal_def Let_def)



section \<open>Update of a session\<close>

lemma api_put:
  "req_method req = ''PUT'' \<Longrightarrow> matchParam ''/sessions/'' (req_path req) = Some ident \<Longrightarrow>
   api ns e uuid req d = Some (put_sessions ns e ident req d)"
  by (simp add: api_def blockBrowserNav_def isGet_def)

lemma app_put:
  "req_method req = ''PUT'' \<Longrightarrow> matchParam ''/sessions/'' (req_path req) = Some ident \<Longrightarrow>
   app ns e uuid req d = put_sessions ns e ident req d"
  by (simp add: app_def api_put)

lemma matchParam_sessions:
  "ident \<noteq> [] \<Longrightarrow> CHR ''/'' \<notin> set ident \<Longrightarrow>
   matchParam ''/sessions/'' (''/sessions/'' @ ident) = Some ident"
proof -
  assume a: "ident \<noteq> []" "CHR ''/'' \<notin> set ident"
  then have "last ident \<noteq> CHR ''/''"
    using last_in_set [of ident] by metis
  then have "dropSlash ident = ident"
    by (simp add: dropSlash_def)
  with a show ?thesis
    by (simp add: matchParam_def toLowerCase_def toLowerChar_def upperCaseChars_def lowerCaseChars_def Let_def)
qed

text \<open>
  Claim C4 says that every authorized \<^verbatim>\<open>PUT /sessions/:id\<close> whose distance is invalid is
  answered 400. A distance whose conversion raises is not valid either, and there the
  \<^verbatim>\<open>catch\<close> of the handler answers 500: \<^verbatim>\<open>{distance: {toString: 1}}\<close> is such a body.
\<close>

theorem put_raising_distance_counterexample:
  "Number ex_ns (JObj [(''toString'', JNum (Fin 1))]) =
     Inl ''Cannot convert object to primitive value'' \<and>
   put_sessions ex_ns ex_env ''a1''
     (mk_request ''PUT'' ''/sessions/a1'' ex_key JUndefined
        (JObj [(''distance'', JObj [(''toString'', JNum (Fin 1))])])) ex_db =
   (\<lparr>res_status = 500,
     res_body = Json (JObj [(''error'', JStr ''Cannot convert object to primitive value'')])\<rparr>,
    ex_db)"
  using requireEditAuth_ex_key [of "''PUT''" "''/sessions/a1''" JUndefined
      "JObj [(''distance'', JObj [(''toString'', JNum (Fin 1))])]"]
  by (simp add: put_sessions_def mk_request_def member_def TypeError_def res_error_eq)

text \<open>
  Claim C4, amended. An authorized \<^verbatim>\<open>PUT /sessions/:id\<close> whose body carries a distance
  that converts to a number which is not finite and above zero (\<open>-5\<close> is one) is
  answered 400 \<^verbatim>\<open>distance invalide\<close> for every id and every store, reachable or not and
  with or without a row of that id, and the store is returned as it was: no query is
  issued before the validation. That holds of the handler for every id, and of the
  application for a path \<^verbatim>\<open>/sessions/\<close> followed by an id without a slash or a percent
  escape. When the conversion of the distance raises, the answer is 500 with the error's
  message, and the store is again as it was.
\<close>

theorem put_invalid_distance:
  "(requireEditAuth e req = Next \<and> member (req_body req) ''distance'' \<noteq> JUndefined \<and>
    Number ns (member (req_body req) ''distance'') = Inr n \<and>
    \<not> (\<exists>q. n = Fin q \<and> 0 < q) \<longrightarrow>
      put_sessions ns e ident req d =
        (\<lparr>res_status = 400, res_body = Json (JObj [(''error'', JStr ''distance invalide'')])\<rparr>, d) \<and>
      (req_method req = ''PUT'' \<and> req_path req = ''/sessions/'' @ ident \<and> ident \<noteq> [] \<and>
       CHR ''/'' \<notin> set ident \<and> CHR ''%'' \<notin> set ident \<longrightarrow>
         app ns e uuid req d =
           (\<lparr>res_status = 400, res_body = Json (JObj [(''error'', JStr ''distance invalide'')])\<rparr>, d))) \<and>
   (requireEditAuth e req = Next \<and>
    Number ns (member (req_body req) ''distance'') = Inl err \<longrightarrow>
      put_sessions ns e ident req d =
        (\<lparr>res_status = 500, res_body = Json (JObj [(''error'', JStr err)])\<rparr>, d)) \<and>
   Number ns (JNum (Fin (- 5))) = Inr (Fin (- 5))"
proof -
  let ?dist = "member (req_body req) ''distance''"
  have put: "put_sessions ns e ident req d =
        (\<lparr>res_status = 400, res_body = Json (JObj [(''error'', JStr ''distance invalide'')])\<rparr>, d)"
    if "requireEditAuth e req = Next" "?dist \<noteq> JUndefined"
      "Number ns ?dist = Inr n" "\<not> (\<exists>q. n = Fin q \<and> 0 < q)"
  proof -
    have b: "(if truthy (req_body req) then req_body req else JObj []) = req_body req"
      using that(2) by (rule member_truthy_body)
    from that(4) have inv: "\<not> isFinite n \<or> leZero n"
      by (simp add: valid_distance_iff)
    show ?thesis
      using that(1,2,3) inv by (simp add: put_sessions_def b Let_def res_error_eq)
  qed
  have put_raise: "put_sessions ns e ident req d =
           (\<lparr>res_status = 500, res_body = Json (JObj [(''error'', JStr err)])\<rparr>, d)"
    if "requireEditAuth e req = Next" "Number ns ?dist = Inl err"
  proof -
    from that(2) have ne: "?dist \<noteq> JUndefined"
      using Number_missing [of ns] by auto
    then have b: "(if truthy (req_body req) then req_body req else JObj []) = req_body req"
      by (rule member_truthy_body)
    show ?thesis
      using that ne by (simp add: put_sessions_def b Let_def res_error_eq)
  qed
  show ?thesis
    using put put_raise app_put [of req ident ns e uuid d] matchParam_sessions [of ident]
    by auto
qed

text \<open>
  Instances: \<^verbatim>\<open>PUT /sessions/a1 {distance: -5}\<close> with the right key, against a store
  that holds the row \<^verbatim>\<open>a1\<close>, is answered 400; with \<^verbatim>\<open>{distance: {toString: 1}}\<close> it is
  answered 500; the store stays both times.
\<close>

theorem put_invalid_distance_witness:
  "app (\<lambda>n. []) ex_env []
     (mk_request ''PUT'' ''/sessions/a1'' ex_key JUndefined
        (JObj [(''distance'', JNum (Fin (- 5)))])) ex_db =
   (\<lparr>res_status = 400, res_body = Json (JObj [(''error'', JStr ''distance invalide'')])\<rparr>,
    ex_db) \<and>
   put_sessions (\<lambda>n. []) ex_env ''a1''
     (mk_request ''PUT'' ''/sessions/a1'' ex_key JUndefined
        (JObj [(''distance'', JObj [(''toString'', JNum (Fin 1))])])) ex_db =
   (\<lparr>res_status = 500, res_body = Json (JObj [(''error'', JStr TypeError)])\<rparr>, ex_db)"
proof -
  have a: "app (\<lambda>n. []) ex_env []
     (mk_request ''PUT'' ''/sessions/a1'' ex_key JUndefined
        (JObj [(''distance'', JNum (Fin (- 5)))])) ex_db =
   (\<lparr>res_status = 400, res_body = Json (JObj [(''error'', JStr ''distance invalide'')])\<rparr>,
    ex_db)"
    using put_invalid_distance [where e = ex_env and ns = "\<lambda>n. []" and uuid = "[]"
        and d = ex_db and ident = "''a1''" and n = "Fin (- 5)"
        and req = "mk_request ''PUT'' ''/sessions/a1'' ex_key JUndefined
          (JObj [(''distance'', JNum (Fin (- 5)))])"]
      requireEditAuth_ex_key [of "''PUT''" "''/sessions/a1''" JUndefined
          "JObj [(''distance'', JNum (Fin (- 5)))]"]
    by (simp add: mk_request_def member_def)
  have b: "put_sessions (\<lambda>n. []) ex_env ''a1''
     (mk_request ''PUT'' ''/sessions/a1'' ex_key JUndefined
        (JObj [(''distance'', JObj [(''toString'', JNum (Fin 1))])])) ex_db =
   (\<lparr>res_status = 500, res_body = Json (JObj [(''error'', JStr TypeError)])\<rparr>, ex_db)"
    using put_invalid_distance [where e = ex_env and ns = "\<lambda>n. []" and d = ex_db
        and ident = "''a1''" and err = TypeError
        and req = "mk_request ''PUT'' ''/sessions/a1'' ex_key JUndefined
          (JObj [(''distance'', JObj [(''toString'', JNum (Fin 1))])])"]
      requireEditAuth_ex_key [of "''PUT''" "''/sessions/a1''" JUndefined
          "JObj [(''distance'', JObj [(''toString'', JNum (Fin 1))])]"]
    by (simp add: mk_request_def member_def)
  from a b show ?thesis by simp
qed

text \<open>An update whose \<^verbatim>\<open>SET\<close> list has no date leaves every stored date and every id.\<close>

lemma row_date_foldl_set_column:
  "''date'' \<notin> fst ` set sets \<Longrightarrow> row_date (foldl set_column r sets) = row_date r"
  by (induction sets arbitrary: r) (auto simp: set_column_def)

lemma query_update_dates:
  "''date'' \<notin> fst ` set sets \<Longrightarrow> query_update sets ident d = Inr (n, d') \<Longrightarrow>
   map row_date (sessions d') = map row_date (sessions d)"
  by (auto simp: query_update_def row_date_foldl_set_column split: option.splits)

lemma query_update_found:
  "failing d = None \<Longrightarrow> JStr ident \<in> row_id ` set (sessions d) \<Longrightarrow>
   query_update sets ident d =
     Inr (length (filter (\<lambda>r. row_id r = JStr ident) (sessions d)),
          d\<lparr>sessions :=
              map (\<lambda>r. if row_id r = JStr ident then foldl set_column r sets else r)
                (sessions d)\<rparr>) \<and>
   filter (\<lambda>r. row_id r = JStr ident) (sessions d) \<noteq> []"
  by (auto simp: query_update_def filter_empty_conv)

lemma put_sessions_dates:
  assumes "member (req_body req) ''date'' = JStr []"
  shows "map row_date (sessions (snd (put_sessions ns e ident req d))) =
         map row_date (sessions d)"
proof (cases "requireEditAuth e req")
  case (Respond r)
  then show ?thesis by (simp add: put_sessions_def)
next
  case Next
  have b: "(if truthy (req_body req) then req_body req else JObj []) = req_body req"
    using assms by (intro member_truthy_body [of _ "''date''"]) simp
  show ?thesis
    using Next assms
    by (auto simp: put_sessions_def b Let_def split: sum.splits
        dest: query_update_dates [rotated])
qed

text \<open>
  Claim C10. \<^verbatim>\<open>PUT /sessions/:id\<close> treats an empty-string date as not supplied. An
  authorized request whose body is just \<^verbatim>\<open>{date: ""}\<close> is answered 400 (no data to
  update) whatever the store, so before any query. Whenever the date of the body is the
  empty string, the stored dates after the request are the stored dates before it. And
  when the other fields supplied are valid and a row has the id, the update sets only
  those fields (the \<^verbatim>\<open>SET\<close> list has no date), while the 200 response echoes the body, its
  \<^verbatim>\<open>date\<close> member being the empty string.
\<close>

theorem put_empty_date:
  "(requireEditAuth e req = Next \<and> req_body req = JObj [(''date'', JStr [])] \<longrightarrow>
      put_sessions ns e ident req d =
        (\<lparr>res_status = 400,
          res_body = Json (JObj [(''error'', JStr ''aucune donnee a mettre a jour'')])\<rparr>, d)) \<and>
   (member (req_body req) ''date'' = JStr [] \<longrightarrow>
      map row_date (sessions (snd (put_sessions ns e ident req d))) =
      map row_date (sessions d)) \<and>
   (requireEditAuth e req = Next \<and> failing d = None \<and>
    JStr ident \<in> row_id ` set (sessions d) \<and>
    member (req_body req) ''date'' = JStr [] \<and>
    member (req_body req) ''distance'' = dv \<and>
    member (req_body req) ''type'' = tv \<and>
    (dv \<noteq> JUndefined \<or> tv \<noteq> JUndefined) \<and>
    (dv \<noteq> JUndefined \<longrightarrow> Number ns dv = Inr (Fin q) \<and> 0 < q) \<and>
    (tv \<noteq> JUndefined \<longrightarrow> normalizeType ns tv = Inr t \<and> isValidType t) \<longrightarrow>
      put_sessions ns e ident req d =
        (\<lparr>res_status = 200,
          res_body = Json (stringify (JObj [(''id'', JStr ident), (''date'', JStr []),
                                            (''distance'', dv), (''type'', tv)]))\<rparr>,
         d\<lparr>sessions :=
             map (\<lambda>r. if row_id r = JStr ident
                      then foldl set_column r
                             ((if dv \<noteq> JUndefined
                               then [(''distance'', JNum (Fin q))] else []) @
                              (if tv \<noteq> JUndefined
                               then [(''type'', JStr t)] else []))
                      else r)
               (sessions d)\<rparr>) \<and>
      member (stringify (JObj [(''id'', JStr ident), (''date'', JStr []),
                               (''distance'', dv), (''type'', tv)])) ''date'' = JStr [])"
proof -
  have one: "put_sessions ns e ident req d =
        (\<lparr>res_status = 400,
          res_body = Json (JObj [(''error'', JStr ''aucune donnee a mettre a jour'')])\<rparr>, d)"
    if "requireEditAuth e req = Next" "req_body req = JObj [(''date'', JStr [])]"
    using that by (simp add: put_sessions_def member_def Let_def res_error_eq)
  have three: "put_sessions ns e ident req d =
        (\<lparr>res_status = 200,
          res_body = Json (stringify (JObj [(''id'', JStr ident), (''date'', JStr []),
                                            (''distance'', dv), (''type'', tv)]))\<rparr>,
         d\<lparr>sessions :=
             map (\<lambda>r. if row_id r = JStr ident
                      then foldl set_column r
                             ((if dv \<noteq> JUndefined
                               then [(''distance'', JNum (Fin q))] else []) @
                              (if tv \<noteq> JUndefined
                               then [(''type'', JStr t)] else []))
                      else r)
               (sessions d)\<rparr>)"
    if "requireEditAuth e req = Next" "failing d = None"
      "JStr ident \<in> row_id ` set (sessions d)"
      "member (req_body req) ''date'' = JStr []"
      "member (req_body req) ''distance'' = dv"
      "member (req_body req) ''type'' = tv"
      "dv \<noteq> JUndefined \<or> tv \<noteq> JUndefined"
      "dv \<noteq> JUndefined \<longrightarrow> Number ns dv = Inr (Fin q) \<and> 0 < q"
      "tv \<noteq> JUndefined \<longrightarrow> normalizeType ns tv = Inr t \<and> isValidType t"
  proof -
    have b: "(if truthy (req_body req) then req_body req else JObj []) = req_body req"
      using that(4) by (intro member_truthy_body [of _ "''date''"]) simp
    have v: "dv \<noteq> JUndefined \<longrightarrow> Number ns dv = Inr (Fin q) \<and> 0 < q"
      using that(8) .
    note q = query_update_found [OF that(2,3)]
    have q1: "query_update sets ident d =
        Inr (length (filter (\<lambda>r. row_id r = JStr ident) (sessions d)),
             d\<lparr>sessions :=
                 map (\<lambda>r. if row_id r = JStr ident then foldl set_column r sets else r)
                   (sessions d)\<rparr>)" for sets
      using q [of sets] by simp
    have q2: "filter (\<lambda>r. row_id r = JStr ident) (sessions d) \<noteq> []"
      using q [of "[]"] by simp
    show ?thesis
      using that(1,4,5,6,7,9) v q2
      by (auto simp: put_sessions_def b Let_def res_json_def q1)
  qed
  have echo: "member (stringify (JObj [(''id'', JStr ident), (''date'', JStr []),
                               (''distance'', dv), (''type'', tv)])) ''date'' = JStr []"
    by (simp add: member_def)
  show ?thesis
    using one three echo put_sessions_dates [of req ns e ident d] by blast
qed

text \<open>
  Instances, with the right key: \<^verbatim>\<open>PUT /sessions/a1 {date: ""}\<close> is answered 400 and the
  store stays; after \<^verbatim>\<open>PUT /sessions/a1 {date: "", distance: 500}\<close> the row keeps its
  date \<^verbatim>\<open>2023-12-24\<close> and has the new distance, and the response echoes the empty date.
\<close>

theorem put_empty_date_witness:
  "put_sessions (\<lambda>n. []) ex_env ''a1''
     (mk_request ''PUT'' ''/sessions/a1'' ex_key JUndefined (JObj [(''date'', JStr [])]))
     ex_db =
   (\<lparr>res_status = 400,
     res_body = Json (JObj [(''error'', JStr ''aucune donnee a mettre a jour'')])\<rparr>, ex_db) \<and>
   put_sessions (\<lambda>n. []) ex_env ''a1''
     (mk_request ''PUT'' ''/sessions/a1'' ex_key JUndefined
        (JObj [(''date'', JStr []), (''distance'', JNum (Fin 500))])) ex_db =
   (\<lparr>res_status = 200,
     res_body = Json (JObj [(''id'', JStr ''a1''), (''date'', JStr []),
                            (''distance'', JNum (Fin 500))])\<rparr>,
    \<lparr>sessions = [\<lparr>row_id = JStr ''a1'', row_date = JStr ''2023-12-24'',
                   row_distance = JNum (Fin 500), row_type = JStr ''run''\<rparr>],
     failing = None\<rparr>)"
proof -
  have a: "put_sessions (\<lambda>n. []) ex_env ''a1''
     (mk_request ''PUT'' ''/sessions/a1'' ex_key JUndefined (JObj [(''date'', JStr [])]))
     ex_db =
   (\<lparr>res_status = 400,
     res_body = Json (JObj [(''error'', JStr ''aucune donnee a mettre a jour'')])\<rparr>, ex_db)"
    using put_empty_date [where e = ex_env and ns = "\<lambda>n. []" and d = ex_db
        and ident = "''a1''"
        and req = "mk_request ''PUT'' ''/sessions/a1'' ex_key JUndefined
          (JObj [(''date'', JStr [])])"]
      requireEditAuth_ex_key [of "''PUT''" "''/sessions/a1''" JUndefined
          "JObj [(''date'', JStr [])]"]
    by (simp add: mk_request_def)
  have b: "put_sessions (\<lambda>n. []) ex_env ''a1''
     (mk_request ''PUT'' ''/sessions/a1'' ex_key JUndefined
        (JObj [(''date'', JStr []), (''distance'', JNum (Fin 500))])) ex_db =
   (\<lparr>res_status = 200,
     res_body = Json (JObj [(''id'', JStr ''a1''), (''date'', JStr []),
                            (''distance'', JNum (Fin 500))])\<rparr>,
    \<lparr>sessions = [\<lparr>row_id = JStr ''a1'', row_date = JStr ''2023-12-24'',
                   row_distance = JNum (Fin 500), row_type = JStr ''run''\<rparr>],
     failing = None\<rparr>)"
    using put_empty_date [where e = ex_env and ns = "\<lambda>n. []" and d = ex_db
        and ident = "''a1''" and dv = "JNum (Fin 500)" and tv = JUndefined and q = 500
        and req = "mk_request ''PUT'' ''/sessions/a1'' ex_key JUndefined
          (JObj [(''date'', JStr []), (''distance'', JNum (Fin 500))])"]
      requireEditAuth_ex_key [of "''PUT''" "''/sessions/a1''" JUndefined
          "JObj [(''date'', JStr []), (''distance'', JNum (Fin 500))]"]
    by (simp add: mk_request_def member_def ex_db_def ex_row_def set_column_def)
  from a b show ?thesis by simp
qed

section \<open>Round trip\<close>

lemma matchPath_sessions: "matchPath ''/sessions'' ''/sessions''"
  by (simp add: matchPath_def toLowerCase_def toLowerChar_def upperCaseChars_def lowerCaseChars_def)

lemma not_matchPath_sessions:
  "\<not> matchPath ''/health'' ''/sessions''" "\<not> matchPath ''/auth/check'' ''/sessions''"
  by (simp_all add: matchPath_def toLowerCase_def toLowerChar_def upperCaseChars_def lowerCaseChars_def)

lemma app_post:
  "req_method req = ''POST'' \<Longrightarrow> req_path req = ''/sessions'' \<Longrightarrow>
   app ns e uuid req d = post_sessions ns e uuid req d"
  by (simp add: app_def api_def blockBrowserNav_def isGet_def matchPath_sessions)

lemma app_get:
  "req_method req = ''GET'' \<Longrightarrow> req_path req = ''/sessions'' \<Longrightarrow>
   blockBrowserNav (\<lambda>h. Inr (req_get req h)) req = Next \<Longrightarrow>
   app ns e uuid req d = get_sessions ns req d"
  by (simp add: app_def api_def isGet_def matchPath_sessions not_matchPath_sessions)

lemma app_delete:
  "req_method req = ''DELETE'' \<Longrightarrow> matchParam ''/sessions/'' (req_path req) = Some ident \<Longrightarrow>
   app ns e uuid req d = delete_sessions e ident req d"
  by (simp add: app_def api_def blockBrowserNav_def isGet_def)

lemma normalizeType_Swim: "normalizeType ns (JStr ''Swim '') = Inr ''swim''"
  by (simp add: normalizeType_def trim_def toLowerCase_def toLowerChar_def upperCaseChars_def lowerCaseChars_def isWhiteSpace_def)

lemma normalizeType_swim: "normalizeType ns (JStr ''swim'') = Inr ''swim''"
  by (simp add: normalizeType_def trim_def toLowerCase_def toLowerChar_def upperCaseChars_def lowerCaseChars_def isWhiteSpace_def)

lemma isValidType_swim: "isValidType ''swim''"
  by (simp add: isValidType_def ALLOWED_TYPES_def)

lemma stringify_JStr: "stringify v = JStr u \<Longrightarrow> v = JStr u"
  by (cases v) (auto split: if_splits)

text \<open>The \<^verbatim>\<open>id\<close> member of a listed row is a string only if the stored id is that string.\<close>

lemma stringify_row_id:
  "member (stringify (row_json r)) ''id'' = JStr u \<Longrightarrow> row_id r = JStr u"
proof (cases "row_id r = JUndefined")
  case True
  assume "member (stringify (row_json r)) ''id'' = JStr u"
  with True show ?thesis
    by (simp add: row_json_def member_def split: if_splits)
next
  case False
  assume "member (stringify (row_json r)) ''id'' = JStr u"
  with False show ?thesis
    by (simp add: row_json_def member_def stringify_JStr)
qed

lemma post_sessions_swim:
  assumes "requireEditAuth e req = Next"
    and "req_body req = JObj [(''date'', JStr ''2024-01-01''), (''distance'', JStr ''1000''),
                              (''type'', JStr ''Swim '')]"
    and "failing d = None" and "JStr uuid \<notin> row_id ` set (sessions d)"
  shows "post_sessions ns e uuid req d =
     (\<lparr>res_status = 201,
       res_body = Json (JObj [(''id'', JStr uuid), (''date'', JStr ''2024-01-01''),
                              (''distance'', JNum (Fin 1000)), (''type'', JStr ''swim'')])\<rparr>,
      d\<lparr>sessions := sessions d @
          [\<lparr>row_id = JStr uuid, row_date = JStr ''2024-01-01'',
            row_distance = JNum (Fin 1000), row_type = JStr ''swim''\<rparr>]\<rparr>)"
  using assms
  by (simp add: post_sessions_def member_def Let_def StringToNumber_1000 normalizeType_Swim
      isValidType_swim query_insert_def res_json_def)

lemma get_sessions_rows:
  assumes "failing d = None"
    and "req_query_type req = JUndefined \<or> req_query_type req = JStr ''swim''"
  shows "get_sessions ns req d =
     (\<lparr>res_status = 200,
       res_body = Json (JArr (map (\<lambda>r. stringify (row_json r))
         (sort_key date_key
            (if req_query_type req = JUndefined then sessions d
             else filter (\<lambda>r. row_type r = JStr ''swim'') (sessions d)))))\<rparr>, d)"
proof -
  have g: "(\<lambda>x. if x = JUndefined then JNull else stringify x) \<circ> row_json =
           (\<lambda>r. stringify (row_json r))"
    by (auto simp: row_json_def)
  from assms(2) show ?thesis
  proof
    assume "req_query_type req = JUndefined"
    then show ?thesis
      using assms(1) by (simp add: get_sessions_def Let_def query_select_def res_json_def g)
  next
    assume "req_query_type req = JStr ''swim''"
    then show ?thesis
      using assms(1)
      by (simp add: get_sessions_def Let_def query_select_def res_json_def g
          normalizeType_swim isValidType_swim)
  qed
qed

lemma delete_sessions_fresh:
  assumes "requireEditAuth e req = Next" and "failing d = None"
    and "JStr ident \<notin> row_id ` set (sessions d)"
  shows "delete_sessions e ident req
           (d\<lparr>sessions := sessions d @
              [\<lparr>row_id = JStr ident, row_date = dt, row_distance = ds, row_type = tp\<rparr>]\<rparr>) =
         (\<lparr>res_status = 204, res_body = NoContent\<rparr>, d)"
proof -
  have "filter (\<lambda>r. row_id r \<noteq> JStr ident) (sessions d) = sessions d"
    using assms(3) by (force simp: filter_id_conv)
  then show ?thesis
    using assms(1,2) by (simp add: delete_sessions_def query_delete_def)
qed

text \<open>
  Claim C2. Against any store that can be reached and does not yet hold the generated
  id, an authorized \<^verbatim>\<open>POST /sessions\<close> with body
  \<^verbatim>\<open>{date: "2024-01-01", distance: "1000", type: "Swim "}\<close> is answered 201 with
  \<^verbatim>\<open>{id, date: "2024-01-01", distance: 1000, type: "swim"}\<close>; a following
  \<^verbatim>\<open>GET /sessions?type=swim\<close> lists that record; an authorized \<^verbatim>\<open>DELETE\<close> of the id is
  answered 204 with an empty body; and a \<^verbatim>\<open>GET /sessions\<close> after it no longer lists the
  record. The two reads are programmatic requests, ones the navigation blocker passes.
\<close>

theorem round_trip:
  assumes "req_method post = ''POST''" and "req_path post = ''/sessions''"
    and "req_body post = JObj [(''date'', JStr ''2024-01-01''), (''distance'', JStr ''1000''),
                               (''type'', JStr ''Swim '')]"
    and "requireEditAuth e post = Next"
    and "failing d = None" and "JStr uuid \<notin> row_id ` set (sessions d)"
    and "uuid \<noteq> []" and "CHR ''/'' \<notin> set uuid"
    and "req_method get1 = ''GET''" and "req_path get1 = ''/sessions''"
    and "req_query_type get1 = JStr ''swim''"
    and "blockBrowserNav (\<lambda>h. Inr (req_get get1 h)) get1 = Next"
    and "req_method del = ''DELETE''" and "req_path del = ''/sessions/'' @ uuid"
    and "requireEditAuth e del = Next"
    and "req_method get2 = ''GET''" and "req_path get2 = ''/sessions''"
    and "req_query_type get2 = JUndefined"
    and "blockBrowserNav (\<lambda>h. Inr (req_get get2 h)) get2 = Next"
  shows "\<exists>d1 d2 rows1 rows2.
    app ns e uuid post d =
      (\<lparr>res_status = 201,
        res_body = Json (JObj [(''id'', JStr uuid), (''date'', JStr ''2024-01-01''),
                               (''distance'', JNum (Fin 1000)), (''type'', JStr ''swim'')])\<rparr>,
       d1) \<and>
    app ns e u1 get1 d1 = (\<lparr>res_status = 200, res_body = Json (JArr rows1)\<rparr>, d1) \<and>
    JObj [(''id'', JStr uuid), (''date'', JStr ''2024-01-01''),
          (''distance'', JNum (Fin 1000)), (''type'', JStr ''swim'')] \<in> set rows1 \<and>
    app ns e u2 del d1 = (\<lparr>res_status = 204, res_body = NoContent\<rparr>, d2) \<and>
    app ns e u3 get2 d2 = (\<lparr>res_status = 200, res_body = Json (JArr rows2)\<rparr>, d2) \<and>
    JObj [(''id'', JStr uuid), (''date'', JStr ''2024-01-01''),
          (''distance'', JNum (Fin 1000)), (''type'', JStr ''swim'')] \<notin> set rows2"
proof -
  let ?rec = "JObj [(''id'', JStr uuid), (''date'', JStr ''2024-01-01''),
                    (''distance'', JNum (Fin 1000)), (''type'', JStr ''swim'')]"
  let ?row = "\<lparr>row_id = JStr uuid, row_date = JStr ''2024-01-01'',
               row_distance = JNum (Fin 1000), row_type = JStr ''swim''\<rparr>"
  let ?d1 = "d\<lparr>sessions := sessions d @ [?row]\<rparr>"
  let ?rows1 = "map (\<lambda>r. stringify (row_json r))
      (sort_key date_key (filter (\<lambda>r. row_type r = JStr ''swim'') (sessions ?d1)))"
  let ?rows2 = "map (\<lambda>r. stringify (row_json r)) (sort_key date_key (sessions d))"
  have f1: "failing ?d1 = None"
    using assms(5) by simp
  have s1: "app ns e uuid post d = (\<lparr>res_status = 201, res_body = Json ?rec\<rparr>, ?d1)"
    using app_post [OF assms(1,2)] post_sessions_swim [OF assms(4,3,5,6)] by simp
  have s2: "app ns e u1 get1 ?d1 = (\<lparr>res_status = 200, res_body = Json (JArr ?rows1)\<rparr>, ?d1)"
    using app_get [OF assms(9,10,12)] get_sessions_rows [OF f1, of get1 ns] assms(11)
    by simp
  have "stringify (row_json ?row) = ?rec"
    by (simp add: row_json_def)
  moreover have "?row \<in> set (sort_key date_key
      (filter (\<lambda>r. row_type r = JStr ''swim'') (sessions ?d1)))"
    by simp
  ultimately have m1: "?rec \<in> set ?rows1"
    by (metis (no_types, lifting) image_eqI set_map)
  have s3: "app ns e u2 del ?d1 = (\<lparr>res_status = 204, res_body = NoContent\<rparr>, d)"
    using app_delete [of del uuid] assms(13,14) matchParam_sessions [OF assms(7,8)]
      delete_sessions_fresh [OF assms(15,5,6)]
    by simp
  have s4: "app ns e u3 get2 d = (\<lparr>res_status = 200, res_body = Json (JArr ?rows2)\<rparr>, d)"
    using app_get [OF assms(16,17,19)] get_sessions_rows [OF assms(5), of get2 ns] assms(18)
    by simp
  have m2: "?rec \<notin> set ?rows2"
  proof
    assume "?rec \<in> set ?rows2"
    then obtain r where r: "r \<in> set (sessions d)" "stringify (row_json r) = ?rec"
      by auto
    from r(2) have "member (stringify (row_json r)) ''id'' = JStr uuid"
      by (simp add: member_def)
    then have "row_id r = JStr uuid"
      by (rule stringify_row_id)
    with r(1) assms(6) show False
      by force
  qed
  from s1 s2 m1 s3 s4 m2 show ?thesis
    by blast
qed

text \<open>
  An instance: the server secret is \<^verbatim>\<open>s3cret\<close>, the store holds one other row, the
  generated id is \<^verbatim>\<open>u-1\<close>; the writes carry \<^verbatim>\<open>X-API-Key: s3cret\<close>, the reads no header.
\<close>

theorem round_trip_witness:
  "\<exists>d1 d2 rows1 rows2.
    app (\<lambda>n. []) ex_env ''u-1''
      (mk_request ''POST'' ''/sessions'' ex_key JUndefined
         (JObj [(''date'', JStr ''2024-01-01''), (''distance'', JStr ''1000''),
                (''type'', JStr ''Swim '')])) ex_db =
      (\<lparr>res_status = 201,
        res_body = Json (JObj [(''id'', JStr ''u-1''), (''date'', JStr ''2024-01-01''),
                               (''distance'', JNum (Fin 1000)), (''type'', JStr ''swim'')])\<rparr>,
       d1) \<and>
    app (\<lambda>n. []) ex_env []
      (mk_request ''GET'' ''/sessions'' (\<lambda>h. None) (JStr ''swim'') JUndefined) d1 =
      (\<lparr>res_status = 200, res_body = Json (JArr rows1)\<rparr>, d1) \<and>
    JObj [(''id'', JStr ''u-1''), (''date'', JStr ''2024-01-01''),
          (''distance'', JNum (Fin 1000)), (''type'', JStr ''swim'')] \<in> set rows1 \<and>
    app (\<lambda>n. []) ex_env []
      (mk_request ''DELETE'' ''/sessions/u-1'' ex_key JUndefined JUndefined) d1 =
      (\<lparr>res_status = 204, res_body = NoContent\<rparr>, d2) \<and>
    app (\<lambda>n. []) ex_env []
      (mk_request ''GET'' ''/sessions'' (\<lambda>h. None) JUndefined JUndefined) d2 =
      (\<lparr>res_status = 200, res_body = Json (JArr rows2)\<rparr>, d2) \<and>
    JObj [(''id'', JStr ''u-1''), (''date'', JStr ''2024-01-01''),
          (''distance'', JNum (Fin 1000)), (''type'', JStr ''swim'')] \<notin> set rows2"
  by (rule round_trip)
    (simp_all add: requireEditAuth_ex_key blockBrowserNav_total,
     simp_all add: mk_request_def ex_db_def ex_row_def req_get_def strOr_def toLowerCase_def)

section \<open>The two mounts\<close>

lemma req_get_path: "req_get (req\<lparr>req_path := p\<rparr>) h = req_get req h"
  by (simp add: req_get_def)

text \<open>
  Claim C8 says that a route answers the same at the root and under \<^verbatim>\<open>/api\<close> for every
  method, path, headers and body. The health check does not. \<^verbatim>\<open>app.use("/", api)\<close> comes
  first and takes every path, so a request for \<^verbatim>\<open>/api/health\<close> enters the router with the
  path \<^verbatim>\<open>/api/health\<close>, which is not the \<^verbatim>\<open>/health\<close> that \<^verbatim>\<open>blockBrowserNav\<close> exempts: a
  \<^verbatim>\<open>GET\<close> with \<^verbatim>\<open>Sec-Fetch-Mode: navigate\<close> is answered 204 there, before the \<^verbatim>\<open>/api\<close>
  mount is tried, while the same request for \<^verbatim>\<open>/health\<close> reaches the health handler, which
  never answers 204.
\<close>

theorem health_mount_divergence:
  "req_method req = ''GET'' \<and>
   toLowerCase (strOr (req_get req ''sec-fetch-mode'') []) = ''navigate'' \<longrightarrow>
     app ns e uuid (req\<lparr>req_path := ''/health''\<rparr>) d = get_health d \<and>
     fst (get_health d) \<noteq> \<lparr>res_status = 204, res_body = NoContent\<rparr> \<and>
     app ns e uuid (req\<lparr>req_path := ''/api/health''\<rparr>) d =
       (\<lparr>res_status = 204, res_body = NoContent\<rparr>, d)"
proof -
  have h: "fst (get_health d) \<noteq> \<lparr>res_status = 204, res_body = NoContent\<rparr>"
    by (simp add: get_health_def query_ping_def res_json_def split: option.splits)
  have root: "app ns e uuid (req\<lparr>req_path := ''/health''\<rparr>) d = get_health d"
    if "req_method req = ''GET''"
    using that
    by (simp add: app_def api_def blockBrowserNav_def isGet_def matchPath_def
        toLowerCase_def toLowerChar_def upperCaseChars_def lowerCaseChars_def)
  have pre: "app ns e uuid (req\<lparr>req_path := ''/api/health''\<rparr>) d =
       (\<lparr>res_status = 204, res_body = NoContent\<rparr>, d)"
    if "req_method req = ''GET''"
      "toLowerCase (strOr (req_get req ''sec-fetch-mode'') []) = ''navigate''"
    using that
    by (simp add: app_def api_def blockBrowserNav_total req_get_path)
  show ?thesis
    using h root pre by blast
qed

text \<open>An instance: a browser navigation to \<^verbatim>\<open>/health\<close> and to \<^verbatim>\<open>/api/health\<close>.\<close>

theorem health_mount_divergence_witness:
  "app (\<lambda>n. []) ex_env []
     (mk_request ''GET'' ''/health'' ex_navigate JUndefined JUndefined) ex_db =
     (\<lparr>res_status = 200,
       res_body = Json (JObj [(''ok'', JBool True), (''db'', JBool True)])\<rparr>, ex_db) \<and>
   app (\<lambda>n. []) ex_env []
     (mk_request ''GET'' ''/api/health'' ex_navigate JUndefined JUndefined) ex_db =
     (\<lparr>res_status = 204, res_body = NoContent\<rparr>, ex_db)"
  using health_mount_divergence [where ns = "\<lambda>n. []" and e = ex_env and uuid = "[]"
      and d = ex_db
      and req = "mk_request ''GET'' ''/'' ex_navigate JUndefined JUndefined"]
  by (simp add: mk_request_def req_get_def ex_navigate_def strOr_def toLowerCase_def
      toLowerChar_def upperCaseChars_def lowerCaseChars_def get_health_def query_ping_def ex_db_def res_json_def member_def)

lemma no_route_under_api:
  assumes "q = ''/api'' @ p"
  shows "\<not> matchPath ''/health'' q" and "\<not> matchPath ''/auth/check'' q"
    and "\<not> matchPath ''/sessions'' q" and "matchParam ''/sessions/'' q = None"
    and "q \<noteq> ''/health''"
  using assms by (simp_all add: matchPath_def matchParam_def toLowerCase_def toLowerChar_def upperCaseChars_def lowerCaseChars_def)

lemma stripMount_api:
  "q = ''/api'' @ p \<Longrightarrow> p \<noteq> [] \<Longrightarrow> hd p = CHR ''/'' \<Longrightarrow> stripMount ''/api'' q = Some p"
  by (simp add: stripMount_def toLowerCase_def toLowerChar_def upperCaseChars_def lowerCaseChars_def)

lemma blockBrowserNav_path:
  "p \<noteq> ''/health'' \<Longrightarrow> q \<noteq> ''/health'' \<Longrightarrow>
   blockBrowserNav (\<lambda>h. Inr (req_get req h)) (req\<lparr>req_path := p\<rparr>) =
   blockBrowserNav (\<lambda>h. Inr (req_get req h)) (req\<lparr>req_path := q\<rparr>)"
  by (simp add: blockBrowserNav_total)

lemma api_blocked:
  "blockBrowserNav (\<lambda>h. Inr (req_get req h)) (req\<lparr>req_path := q\<rparr>) = Respond r \<Longrightarrow>
   api ns e uuid (req\<lparr>req_path := q\<rparr>) d = Some (r, d)"
  by (simp add: api_def req_get_path)

lemma api_under_api:
  assumes "q = ''/api'' @ p"
    and "blockBrowserNav (\<lambda>h. Inr (req_get req h)) (req\<lparr>req_path := q\<rparr>) = Next"
  shows "api ns e uuid (req\<lparr>req_path := q\<rparr>) d = None"
  using assms(2) no_route_under_api(1-4) [OF assms(1)]
  by (simp add: api_def req_get_path)

text \<open>
  Apart from that case the two mounts agree: when the router serves a path \<open>p\<close>, the
  application gives the same response and the same store for \<open>p\<close> and for \<^verbatim>\<open>/api\<close>
  followed by \<open>p\<close>, provided that a \<^verbatim>\<open>GET\<close> of the health check is one the blocker lets
  through under its \<^verbatim>\<open>/api\<close> path.
\<close>

theorem mount_equivalence:
  assumes "p \<noteq> []" and "hd p = CHR ''/''"
    and "api ns e uuid (req\<lparr>req_path := p\<rparr>) d = Some out"
    and "req_method req = ''GET'' \<and> p = ''/health'' \<longrightarrow>
         blockBrowserNav (\<lambda>h. Inr (req_get req h)) (req\<lparr>req_path := ''/api/health''\<rparr>) = Next"
  shows "app ns e uuid (req\<lparr>req_path := p\<rparr>) d = out \<and>
         app ns e uuid (req\<lparr>req_path := ''/api'' @ p\<rparr>) d = out"
proof
  show "app ns e uuid (req\<lparr>req_path := p\<rparr>) d = out"
    using assms(3) by (simp add: app_def)
next
  define q where "q = ''/api'' @ p"
  let ?b = "blockBrowserNav (\<lambda>h. Inr (req_get req h)) (req\<lparr>req_path := q\<rparr>)"
  have "app ns e uuid (req\<lparr>req_path := q\<rparr>) d = out"
  proof (cases ?b)
    case Next
    then have "api ns e uuid (req\<lparr>req_path := q\<rparr>) d = None"
      by (rule api_under_api [OF q_def])
    then show ?thesis
      using assms(3) stripMount_api [OF q_def assms(1,2)] by (simp add: app_def)
  next
    case (Respond r)
    then have get: "req_method req = ''GET''"
      by (auto simp: blockBrowserNav_def split: if_splits)
    have ph: "p \<noteq> ''/health''"
    proof
      assume "p = ''/health''"
      with assms(4) get Respond show False by (simp add: q_def)
    qed
    have "blockBrowserNav (\<lambda>h. Inr (req_get req h)) (req\<lparr>req_path := p\<rparr>) = Respond r"
      using blockBrowserNav_path [OF ph no_route_under_api(5) [OF q_def], of req] Respond
      by simp
    then have "api ns e uuid (req\<lparr>req_path := p\<rparr>) d = Some (r, d)"
      by (rule api_blocked)
    with assms(3) have "out = (r, d)" by simp
    then show ?thesis
      using api_blocked [OF Respond, of ns e uuid d] by (simp add: app_def)
  qed
  then show "app ns e uuid (req\<lparr>req_path := ''/api'' @ p\<rparr>) d = out"
    by (simp add: q_def)
qed

text \<open>An instance: \<^verbatim>\<open>GET /api/sessions\<close> lists the stored row as \<^verbatim>\<open>GET /sessions\<close> does.\<close>

theorem mount_equivalence_witness:
  "app (\<lambda>n. []) ex_env []
     (mk_request ''GET'' ''/api/sessions'' (\<lambda>h. None) JUndefined JUndefined) ex_db =
   (\<lparr>res_status = 200,
     res_body = Json (JArr [JObj [(''id'', JStr ''a1''), (''date'', JStr ''2023-12-24''),
                                  (''distance'', JNum (Fin 750)), (''type'', JStr ''run'')]])\<rparr>,
    ex_db)"
proof -
  have a: "api (\<lambda>n. []) ex_env []
      ((mk_request ''GET'' ''/'' (\<lambda>h. None) JUndefined JUndefined)\<lparr>req_path := ''/sessions''\<rparr>)
      ex_db =
    Some (\<lparr>res_status = 200,
     res_body = Json (JArr [JObj [(''id'', JStr ''a1''), (''date'', JStr ''2023-12-24''),
                                  (''distance'', JNum (Fin 750)), (''type'', JStr ''run'')]])\<rparr>,
    ex_db)"
    by (simp add: api_def blockBrowserNav_total isGet_def matchPath_def get_sessions_def
        query_select_def res_json_def row_json_def mk_request_def ex_db_def ex_row_def
        req_get_def strOr_def toLowerCase_def toLowerChar_def upperCaseChars_def lowerCaseChars_def)
  show ?thesis
    using mount_equivalence [OF _ _ a] by (simp add: mk_request_def)
qed

end
